theory Spec2Isabelle
  imports Main "HOL-Library.Word"
begin

section \<open>Kubernetes API objects held by the mirrors\<close>

text \<open>
  The controller of \<^verbatim>\<open>platform/kube/controller.go\<close> keeps one informer (a local
  mirror) per resource kind. Of each Kubernetes object, the fields the controller reads
  are kept, and for a service also its cluster IP and ports, which a conversion may
  read. A Go \<^verbatim>\<open>map[string]string\<close> is an association list read with \<^const>\<open>map_of\<close>; a
  nil map and an empty map both read as the empty list. A port number of the API is an
  \<^verbatim>\<open>int32\<close>.
\<close>

type_synonym Tags = "(string \<times> string) list"

type_synonym TagsList = "Tags list"

record K8sService =
  svc_Name :: string
  svc_Namespace :: string
  svc_ClusterIP :: string
  svc_Ports :: "(string \<times> 32 word) list"

record EndpointAddress =
  ea_IP :: string

record EndpointPort =
  epp_Name :: string
  epp_Port :: "32 word"

record EndpointSubset =
  ss_Addresses :: "EndpointAddress list"
  ss_Ports :: "EndpointPort list"

record Endpoints =
  ep_Name :: string
  ep_Namespace :: string
  ep_Subsets :: "EndpointSubset list"

record Pod =
  pod_Name :: string
  pod_Namespace :: string
  pod_Labels :: Tags
  pod_NodeName :: string
  pod_ServiceAccountName :: string

record Node =
  node_Name :: string
  node_Labels :: "(string \<times> string) list"

text \<open>
  Event callbacks and handler stages receive an \<^verbatim>\<open>interface{}\<close>: a pointer to an object
  of some kind, the tombstone \<^verbatim>\<open>cache.DeletedFinalStateUnknown\<close> that an informer hands to
  a delete callback when it missed the deletion, or any other Go value.
\<close>

datatype Obj =
    ServiceObj K8sService
  | EndpointsObj Endpoints
  | PodObj Pod
  | NodeObj Node
  | DeletedFinalStateUnknown string Obj
  | OtherObj

datatype Event = EventAdd | EventUpdate | EventDelete

section \<open>The controller state\<close>

text \<open>
  An informer is its store (key to object, keys distinct) and the flag its
  \<^verbatim>\<open>HasSynced()\<close> reports: whether the initial full list has been merged. The store
  lists its objects in an order Go leaves open; the order of the association list stands
  for it.
\<close>

record 'a SharedIndexInformer =
  inf_store :: "(string \<times> 'a) list"
  inf_synced :: bool

definition informer_HasSynced :: "'a SharedIndexInformer \<Rightarrow> bool" where
  "informer_HasSynced i = inf_synced i"

definition GetByKey :: "'a SharedIndexInformer \<Rightarrow> string \<Rightarrow> 'a option" where
  "GetByKey i key = map_of (inf_store i) key"

definition StoreList :: "'a SharedIndexInformer \<Rightarrow> 'a list" where
  "StoreList i = map snd (inf_store i)"

text \<open>
  \<^verbatim>\<open>PodCache\<close>: the pod informer and \<^verbatim>\<open>keys\<close>, the map from a pod IP to the pod's store
  key (both are read by \<^verbatim>\<open>GetIstioServiceAccounts\<close>).
\<close>

record PodCache =
  pc_informer :: "Pod SharedIndexInformer"
  pc_keys :: "(string \<times> string) list"

text \<open>
  A task names the handler chain to run by the kind of the informer that created it
  (\<^verbatim>\<open>createInformer\<close> makes one chain per informer). Of the controller's fields, the
  mesh configuration and the API client are left out: no function below reads them.
\<close>

datatype Kind = ServiceKind | EndpointsKind | NodeKind | PodKind

record Task =
  task_handler :: Kind
  task_obj :: Obj
  task_event :: Event

record Controller =
  domainSuffix :: string
  queue :: "Task list"
  services :: "K8sService SharedIndexInformer"
  endpoints :: "Endpoints SharedIndexInformer"
  nodes :: "Node SharedIndexInformer"
  pods :: PodCache

text \<open>
  \<^verbatim>\<open>ControllerOptions\<close> and \<^verbatim>\<open>NewController\<close>: a fresh controller has an empty queue
  and four informers that hold nothing and have not listed yet.
\<close>

record ControllerOptions =
  Namespace :: string
  ResyncPeriod :: int
  DomainSuffix :: string

definition NewController :: "ControllerOptions \<Rightarrow> Controller" where
  "NewController options =
     \<lparr>domainSuffix = DomainSuffix options,
      queue = [],
      services = \<lparr>inf_store = [], inf_synced = False\<rparr>,
      endpoints = \<lparr>inf_store = [], inf_synced = False\<rparr>,
      nodes = \<lparr>inf_store = [], inf_synced = False\<rparr>,
      pods = \<lparr>pc_informer = \<lparr>inf_store = [], inf_synced = False\<rparr>, pc_keys = []\<rparr>\<rparr>"

section \<open>Synchronisation gate\<close>

text \<open>\<^verbatim>\<open>Controller.HasSynced\<close>: the three informers the source tests, in its order.\<close>

definition HasSynced :: "Controller \<Rightarrow> bool" where
  "HasSynced c =
     (if \<not> informer_HasSynced (services c) \<or>
         \<not> informer_HasSynced (endpoints c) \<or>
         \<not> informer_HasSynced (pc_informer (pods c))
      then False
      else True)"

text \<open>
  What a handler stage does: return nil, return an error, or panic (a failed type
  assertion \<^verbatim>\<open>obj.(*T)\<close>).
\<close>

datatype HandlerResult = ReturnsNil | ReturnsError string | Panics string

text \<open>
  \<^verbatim>\<open>cache.DeletionHandlingMetaNamespaceKeyFunc\<close> of client-go: the key of a tombstone is
  the key it carries; the key of an object with metadata is \<^verbatim>\<open>namespace/name\<close>, or the
  name alone when the namespace is empty; anything else is an error.
\<close>

fun objectMeta :: "Obj \<Rightarrow> (string \<times> string) option" where
  "objectMeta (ServiceObj s) = Some (svc_Namespace s, svc_Name s)"
| "objectMeta (EndpointsObj e) = Some (ep_Namespace e, ep_Name e)"
| "objectMeta (PodObj p) = Some (pod_Namespace p, pod_Name p)"
| "objectMeta (NodeObj n) = Some ([], node_Name n)"
| "objectMeta (DeletedFinalStateUnknown k obj) = None"
| "objectMeta OtherObj = None"

definition MetaNamespaceKeyFunc :: "Obj \<Rightarrow> string + string" where
  "MetaNamespaceKeyFunc obj =
     (case objectMeta obj of
        None \<Rightarrow> Inl ''object has no meta''
      | Some (ns, name) \<Rightarrow> if ns \<noteq> [] then Inr (ns @ ''/'' @ name) else Inr name)"

fun DeletionHandlingMetaNamespaceKeyFunc :: "Obj \<Rightarrow> string + string" where
  "DeletionHandlingMetaNamespaceKeyFunc (DeletedFinalStateUnknown k obj) = Inr k"
| "DeletionHandlingMetaNamespaceKeyFunc obj = MetaNamespaceKeyFunc obj"

text \<open>The lines \<^verbatim>\<open>notify\<close> writes to the log at verbosity 2.\<close>

datatype LogEntry = ErrorRetrievingKey string | EventKey Event string

text \<open>
  \<^verbatim>\<open>Controller.notify\<close>, the first handler of every chain: the result and the log
  lines written.
\<close>

definition notify :: "Controller \<Rightarrow> Obj \<Rightarrow> Event \<Rightarrow> HandlerResult \<times> LogEntry list" where
  "notify c obj event =
     (if \<not> HasSynced c then (ReturnsError ''Waiting till full synchronization'', [])
      else (case DeletionHandlingMetaNamespaceKeyFunc obj of
              Inl err \<Rightarrow> (ReturnsNil, [ErrorRetrievingKey err])
            | Inr k \<Rightarrow> (ReturnsNil, [EventKey event k])))"

section \<open>Formatting\<close>

text \<open>
  \<^verbatim>\<open>fmt.Sprintf\<close> of the Go library, for the one verb the controller's results are
  built with: each \<^verbatim>\<open>%v\<close> is replaced by the next operand, and a string operand prints
  as itself. A verb with no operand left prints \<^verbatim>\<open>%!v(MISSING)\<close>.
\<close>

fun Sprintf :: "string \<Rightarrow> string list \<Rightarrow> string" where
  "Sprintf (c # d # fmt) args =
     (if c = CHR ''%'' \<and> d = CHR ''v'' then
        (case args of
           [] \<Rightarrow> ''%!v(MISSING)'' @ Sprintf fmt []
         | a # rest \<Rightarrow> a @ Sprintf fmt rest)
      else c # Sprintf (d # fmt) args)"
| "Sprintf fmt args = fmt"

definition NodeRegionLabel :: string where
  "NodeRegionLabel = ''failure-domain.beta.kubernetes.io/region''"

definition NodeZoneLabel :: string where
  "NodeZoneLabel = ''failure-domain.beta.kubernetes.io/zone''"

definition uriScheme :: string where
  "uriScheme = ''spiffe''"

text \<open>\<^verbatim>\<open>generateServiceAccountID\<close>.\<close>

definition generateServiceAccountID :: "string \<Rightarrow> string \<Rightarrow> string \<Rightarrow> string" where
  "generateServiceAccountID sa ns domain =
     Sprintf ''%v://%v/ns/%v/sa/%v'' [uriScheme, domain, ns, sa]"

section \<open>The catalog's model types\<close>

text \<open>
  Modelled from the spec: the types \<^verbatim>\<open>model.Port\<close>, \<^verbatim>\<open>model.Service\<close>,
  \<^verbatim>\<open>model.NetworkEndpoint\<close> and \<^verbatim>\<open>model.ServiceInstance\<close> are declared outside
  \<^verbatim>\<open>controller.go\<close>. The fields are the ones the controller's composite literals set
  and the spec's data model lists: a service is a hostname and an ordered list of named
  ports; an instance is a network endpoint (address, port, matched service port), its
  service, its tag set and its locality. A nil pointer is \<^const>\<open>None\<close>.
\<close>

record Port =
  port_Name :: string
  port_Port :: int

record Service =
  s_Hostname :: string
  s_Ports :: "Port list"

record NetworkEndpoint =
  ne_Address :: string
  ne_Port :: int
  ne_ServicePort :: "Port option"

record ServiceInstance =
  si_Endpoint :: NetworkEndpoint
  si_Service :: "Service option"
  si_Tags :: Tags
  si_AvailabilityZone :: string

text \<open>The zero value of \<^verbatim>\<open>model.NetworkEndpoint\<close>.\<close>

definition zeroNetworkEndpoint :: NetworkEndpoint where
  "zeroNetworkEndpoint = \<lparr>ne_Address = [], ne_Port = 0, ne_ServicePort = None\<rparr>"

text \<open>
  Modelled from the spec: \<^verbatim>\<open>PortList.Get\<close> is defined outside \<^verbatim>\<open>controller.go\<close>. A
  service's ports are named, the name unique in the service; \<^verbatim>\<open>Get\<close> finds the port of
  a name.
\<close>

definition Get :: "Port list \<Rightarrow> string \<Rightarrow> Port option" where
  "Get ps name = find (\<lambda>p. port_Name p = name) ps"

text \<open>
  Modelled from the spec: \<^verbatim>\<open>Tags.SubsetOf\<close> and \<^verbatim>\<open>TagsList.HasSubsetOf\<close> are defined
  outside \<^verbatim>\<open>controller.go\<close>. A tag set is a subset of another when each of its
  key-value pairs is in the other; a filter (a list of tag sets) matches a tag set when
  it is empty or one of its tag sets is a subset of it.
\<close>

definition SubsetOf :: "Tags \<Rightarrow> Tags \<Rightarrow> bool" where
  "SubsetOf t that = list_all (\<lambda>(k, v). map_of that k = Some v) t"

definition HasSubsetOf :: "TagsList \<Rightarrow> Tags \<Rightarrow> bool" where
  "HasSubsetOf tagsList that =
     (if tagsList = [] then True else list_ex (\<lambda>t. SubsetOf t that) tagsList)"

section \<open>Hostnames and store keys\<close>

text \<open>
  Modelled from the spec: \<^verbatim>\<open>serviceHostname\<close> and \<^verbatim>\<open>parseHostname\<close> are defined
  outside \<^verbatim>\<open>controller.go\<close>, which only calls the parser on the hostname alone. The
  spec's naming convention is \<^verbatim>\<open>hostname = <name>.<namespace>.<suffix>\<close>, and parsing
  reads the name and the namespace back: the text before the first dot and the text
  between the first and the second dot. A hostname with fewer than two dots has no
  such parts and is an error.
\<close>

definition serviceHostname :: "string \<Rightarrow> string \<Rightarrow> string \<Rightarrow> string" where
  "serviceHostname name namespace suffix = name @ ''.'' @ namespace @ ''.'' @ suffix"

definition cutAtDot :: "string \<Rightarrow> (string \<times> string) option" where
  "cutAtDot h =
     (if CHR ''.'' \<in> set h
      then Some (takeWhile (\<lambda>c. c \<noteq> CHR ''.'') h, tl (dropWhile (\<lambda>c. c \<noteq> CHR ''.'') h))
      else None)"

definition parseHostname :: "string \<Rightarrow> string + (string \<times> string)" where
  "parseHostname hostname =
     (case cutAtDot hostname of
        None \<Rightarrow> Inl ''missing service name and namespace from the service hostname''
      | Some (name, rest) \<Rightarrow>
          (case cutAtDot rest of
             None \<Rightarrow> Inl ''missing service name and namespace from the service hostname''
           | Some (namespace, suffix) \<Rightarrow> Inr (name, namespace)))"

text \<open>
  Modelled from the spec: \<^verbatim>\<open>KeyFunc\<close> is defined outside \<^verbatim>\<open>controller.go\<close>. The
  mirrors are keyed by namespace and name, \<^verbatim>\<open>namespace/name\<close>.
\<close>

definition KeyFunc :: "string \<Rightarrow> string \<Rightarrow> string" where
  "KeyFunc name namespace = namespace @ ''/'' @ name"

section \<open>The pod index\<close>

text \<open>
  Modelled from the spec: \<^verbatim>\<open>PodCache.getPodByIP\<close> and \<^verbatim>\<open>PodCache.tagsByIP\<close> are
  defined outside \<^verbatim>\<open>controller.go\<close>. The index maps an address to the pod's key, and
  the pod is read from the pod mirror by that key, as \<^verbatim>\<open>GetIstioServiceAccounts\<close> does
  in place; the tags of an address are the labels of its pod. An address with no pod
  has no tags (a nil map) and \<^verbatim>\<open>found = false\<close>.
\<close>

definition getPodByIP :: "PodCache \<Rightarrow> string \<Rightarrow> Pod option" where
  "getPodByIP pc addr =
     (case map_of (pc_keys pc) addr of
        None \<Rightarrow> None
      | Some key \<Rightarrow> GetByKey (pc_informer pc) key)"

definition tagsByIP :: "PodCache \<Rightarrow> string \<Rightarrow> Tags \<times> bool" where
  "tagsByIP pc addr =
     (case getPodByIP pc addr of
        None \<Rightarrow> ([], False)
      | Some pod \<Rightarrow> (pod_Labels pod, True))"

section \<open>Service catalog queries\<close>

text \<open>
  \<^verbatim>\<open>convertService\<close> is defined outside \<^verbatim>\<open>controller.go\<close> and the spec gives no rule
  for it, so every query takes it as a parameter: the conversion of a Kubernetes service
  under a domain suffix, \<^const>\<open>None\<close> where the source gets nil.
\<close>

type_synonym Conversion = "K8sService \<Rightarrow> string \<Rightarrow> Service option"

text \<open>\<^verbatim>\<open>Controller.serviceByKey\<close>; the in-memory store's lookup has no error.\<close>

definition serviceByKey :: "Controller \<Rightarrow> string \<Rightarrow> string \<Rightarrow> K8sService option" where
  "serviceByKey c name namespace = GetByKey (services c) (KeyFunc name namespace)"

text \<open>\<^verbatim>\<open>Controller.GetService\<close>.\<close>

definition GetService :: "Conversion \<Rightarrow> Controller \<Rightarrow> string \<Rightarrow> Service option \<times> bool" where
  "GetService convertService c hostname =
     (case parseHostname hostname of
        Inl err \<Rightarrow> (None, False)
      | Inr (name, namespace) \<Rightarrow>
          (case serviceByKey c name namespace of
             None \<Rightarrow> (None, False)
           | Some item \<Rightarrow>
               (let svc = convertService item (domainSuffix c) in (svc, svc \<noteq> None))))"

text \<open>\<^verbatim>\<open>Controller.getPodAZByIP\<close>: the four lookups in the source's order.\<close>

definition getPodAZByIP :: "Controller \<Rightarrow> string \<Rightarrow> string \<times> bool" where
  "getPodAZByIP c addr =
     (case getPodByIP (pods c) addr of
        None \<Rightarrow> ([], False)
      | Some pod \<Rightarrow>
          (case GetByKey (nodes c) (pod_NodeName pod) of
             None \<Rightarrow> ([], False)
           | Some node \<Rightarrow>
               (case map_of (node_Labels node) NodeRegionLabel of
                  None \<Rightarrow> ([], False)
                | Some region \<Rightarrow>
                    (case map_of (node_Labels node) NodeZoneLabel of
                       None \<Rightarrow> ([], False)
                     | Some zone \<Rightarrow> (Sprintf ''%v/%v'' [region, zone], True)))))"

text \<open>
  \<^verbatim>\<open>Controller.Instances\<close>, loop by loop. \<^verbatim>\<open>svcPorts\<close> is the map the first loop
  fills: a requested port name that the service has, to the service's port.
\<close>

definition locatePorts :: "Service \<Rightarrow> string list \<Rightarrow> (string \<rightharpoonup> Port)" where
  "locatePorts svc ports =
     foldl (\<lambda>svcPorts port.
              case Get (s_Ports svc) port of
                Some svcPort \<Rightarrow> svcPorts(port \<mapsto> svcPort)
              | None \<Rightarrow> svcPorts)
       Map.empty ports"

text \<open>The innermost loop: one instance for each port of the subset that \<^verbatim>\<open>svcPorts\<close> has.\<close>

definition portInstances ::
  "Service \<Rightarrow> (string \<rightharpoonup> Port) \<Rightarrow> EndpointAddress \<Rightarrow> Tags \<Rightarrow> string \<Rightarrow> EndpointPort list
     \<Rightarrow> ServiceInstance list" where
  "portInstances svc svcPorts ea tags az ports =
     concat (map (\<lambda>port.
        case svcPorts (epp_Name port) of
          Some svcPort \<Rightarrow>
            [\<lparr>si_Endpoint = \<lparr>ne_Address = ea_IP ea, ne_Port = sint (epp_Port port),
                              ne_ServicePort = Some svcPort\<rparr>,
              si_Service = Some svc, si_Tags = tags, si_AvailabilityZone = az\<rparr>]
        | None \<Rightarrow> []) ports)"

text \<open>The body of the loop over a subset's addresses: the tag filter, then the locality.\<close>

definition addressInstances ::
  "Controller \<Rightarrow> Service \<Rightarrow> (string \<rightharpoonup> Port) \<Rightarrow> TagsList \<Rightarrow> EndpointSubset
     \<Rightarrow> EndpointAddress \<Rightarrow> ServiceInstance list" where
  "addressInstances c svc svcPorts tagsList ss ea =
     (let tags = fst (tagsByIP (pods c) (ea_IP ea)) in
      if \<not> HasSubsetOf tagsList tags then []
      else (let az = fst (getPodAZByIP c (ea_IP ea)) in
            portInstances svc svcPorts ea tags az (ss_Ports ss)))"

definition endpointsInstances ::
  "Controller \<Rightarrow> Service \<Rightarrow> (string \<rightharpoonup> Port) \<Rightarrow> TagsList \<Rightarrow> Endpoints
     \<Rightarrow> ServiceInstance list" where
  "endpointsInstances c svc svcPorts tagsList ep =
     concat (map (\<lambda>ss. concat (map (addressInstances c svc svcPorts tagsList ss)
                                    (ss_Addresses ss)))
                 (ep_Subsets ep))"

text \<open>
  The whole query. The scan of the Endpoints mirror returns at the first entry of the
  name and namespace; a nil result is the empty list.
\<close>

definition Instances ::
  "Conversion \<Rightarrow> Controller \<Rightarrow> string \<Rightarrow> string list \<Rightarrow> TagsList \<Rightarrow> ServiceInstance list" where
  "Instances convertService c hostname ports tagsList =
     (case parseHostname hostname of
        Inl err \<Rightarrow> []
      | Inr (name, namespace) \<Rightarrow>
          (case serviceByKey c name namespace of
             None \<Rightarrow> []
           | Some item \<Rightarrow>
               (case convertService item (domainSuffix c) of
                  None \<Rightarrow> []
                | Some svc \<Rightarrow>
                    (let svcPorts = locatePorts svc ports in
                     case find (\<lambda>ep. ep_Name ep = name \<and> ep_Namespace ep = namespace)
                            (StoreList (endpoints c)) of
                       None \<Rightarrow> []
                     | Some ep \<Rightarrow> endpointsInstances c svc svcPorts tagsList ep))))"

text \<open>
  \<^verbatim>\<open>Controller.GetIstioServiceAccounts\<close>. \<^verbatim>\<open>saSet\<close> is a Go map used as a set: here a
  list that an identity enters once. The source returns the set's members in the order
  a map iteration yields, which Go leaves open; the list holds each of them once.
\<close>

definition GetIstioServiceAccounts ::
  "Conversion \<Rightarrow> Controller \<Rightarrow> string \<Rightarrow> string list \<Rightarrow> string list" where
  "GetIstioServiceAccounts convertService c hostname ports =
     foldl (\<lambda>saSet si.
              case map_of (pc_keys (pods c)) (ne_Address (si_Endpoint si)) of
                None \<Rightarrow> saSet
              | Some key \<Rightarrow>
                  (case GetByKey (pc_informer (pods c)) key of
                     None \<Rightarrow> saSet
                   | Some pod \<Rightarrow>
                       List.insert
                         (generateServiceAccountID (pod_ServiceAccountName pod)
                            (pod_Namespace pod) (domainSuffix c))
                         saSet))
       [] (Instances convertService c hostname ports [])"

section \<open>Event callbacks of a mirror\<close>

text \<open>
  Modelled from the spec: \<^verbatim>\<open>Queue.Push\<close> is defined outside \<^verbatim>\<open>controller.go\<close>. The
  queue holds the tasks in arrival order and \<^verbatim>\<open>push\<close> enqueues one at the back.
\<close>

definition Push :: "Task list \<Rightarrow> Task \<Rightarrow> Task list" where
  "Push q t = q @ [t]"

text \<open>
  \<^verbatim>\<open>reflect.DeepEqual\<close> of the Go library on two objects: objects are values here, so
  deep equality is equality.
\<close>

definition DeepEqual :: "Obj \<Rightarrow> Obj \<Rightarrow> bool" where
  "DeepEqual old cur = (old = cur)"

text \<open>
  The three callbacks \<^verbatim>\<open>createInformer\<close> registers with the informer of kind \<open>h\<close>; each
  returns the controller with its queue as the callback leaves it.
\<close>

definition AddFunc :: "Kind \<Rightarrow> Controller \<Rightarrow> Obj \<Rightarrow> Controller" where
  "AddFunc h c obj =
     c\<lparr>queue := Push (queue c) \<lparr>task_handler = h, task_obj = obj, task_event = EventAdd\<rparr>\<rparr>"

definition UpdateFunc :: "Kind \<Rightarrow> Controller \<Rightarrow> Obj \<Rightarrow> Obj \<Rightarrow> Controller" where
  "UpdateFunc h c old cur =
     (if \<not> DeepEqual old cur
      then c\<lparr>queue := Push (queue c)
                 \<lparr>task_handler = h, task_obj = cur, task_event = EventUpdate\<rparr>\<rparr>
      else c)"

definition DeleteFunc :: "Kind \<Rightarrow> Controller \<Rightarrow> Obj \<Rightarrow> Controller" where
  "DeleteFunc h c obj =
     c\<lparr>queue := Push (queue c) \<lparr>task_handler = h, task_obj = obj, task_event = EventDelete\<rparr>\<rparr>"

text \<open>What an informer observes and hands to its callbacks, one after the other.\<close>

datatype Notification = Added Obj | Updated Obj Obj | Deleted Obj

fun deliver :: "Kind \<Rightarrow> Controller \<Rightarrow> Notification \<Rightarrow> Controller" where
  "deliver h c (Added obj) = AddFunc h c obj"
| "deliver h c (Updated old cur) = UpdateFunc h c old cur"
| "deliver h c (Deleted obj) = DeleteFunc h c obj"

fun propagated :: "Notification \<Rightarrow> bool" where
  "propagated (Added obj) = True"
| "propagated (Updated old cur) = (\<not> DeepEqual old cur)"
| "propagated (Deleted obj) = True"

section \<open>Stages appended to the handler chains\<close>

text \<open>
  A registered callback returns nothing; it acts on a state of its own, \<open>'w\<close>. A stage
  returns its result and that state as the callback left it.

  The stage \<^verbatim>\<open>AppendServiceHandler\<close> appends to the chain of the Service mirror. The type
  assertion \<^verbatim>\<open>obj.(*v1.Service)\<close> panics on an object of another dynamic type.
\<close>

definition serviceHandler ::
  "Conversion \<Rightarrow> Controller \<Rightarrow> (Service \<Rightarrow> Event \<Rightarrow> 'w \<Rightarrow> 'w) \<Rightarrow> Obj \<Rightarrow> Event \<Rightarrow> 'w
     \<Rightarrow> HandlerResult \<times> 'w" where
  "serviceHandler convertService c f obj event w =
     (case obj of
        ServiceObj s \<Rightarrow>
          (case convertService s (domainSuffix c) of
             Some svc \<Rightarrow> (ReturnsNil, f svc event w)
           | None \<Rightarrow> (ReturnsNil, w))
      | _ \<Rightarrow> (Panics ''interface conversion: interface {} is not *v1.Service'', w))"

text \<open>
  The stage \<^verbatim>\<open>AppendInstanceHandler\<close> appends to the chain of the Endpoints mirror. The
  instance handed to the callback is the composite literal with the service alone.
\<close>

definition instanceHandler ::
  "Conversion \<Rightarrow> Controller \<Rightarrow> (ServiceInstance \<Rightarrow> Event \<Rightarrow> 'w \<Rightarrow> 'w) \<Rightarrow> Obj \<Rightarrow> Event \<Rightarrow> 'w
     \<Rightarrow> HandlerResult \<times> 'w" where
  "instanceHandler convertService c f obj event w =
     (case obj of
        EndpointsObj ep \<Rightarrow>
          (case serviceByKey c (ep_Name ep) (ep_Namespace ep) of
             Some item \<Rightarrow>
               (case convertService item (domainSuffix c) of
                  Some svc \<Rightarrow>
                    (ReturnsNil,
                     f \<lparr>si_Endpoint = zeroNetworkEndpoint, si_Service = Some svc,
                        si_Tags = [], si_AvailabilityZone = []\<rparr> event w)
                | None \<Rightarrow> (ReturnsNil, w))
           | None \<Rightarrow> (ReturnsNil, w))
      | _ \<Rightarrow> (Panics ''interface conversion: interface {} is not *v1.Endpoints'', w))"

text \<open>
  A callback that appends the arguments of each invocation to a list, to observe what a
  stage calls it with.
\<close>

definition recordCall :: "'a \<Rightarrow> Event \<Rightarrow> ('a \<times> Event) list \<Rightarrow> ('a \<times> Event) list" where
  "recordCall x event calls = calls @ [(x, event)]"

section \<open>A sample state\<close>

text \<open>
  The state the examples below are evaluated in, under the domain suffix
  \<^verbatim>\<open>cluster.local\<close> and in the namespace \<^verbatim>\<open>foo\<close>: the service \<^verbatim>\<open>reviews\<close> with the
  ports \<^verbatim>\<open>http:80\<close> and \<^verbatim>\<open>grpc:90\<close> and one address exposing both; the service
  \<^verbatim>\<open>ratings\<close> with four addresses, the first on a pod tagged
  \<^verbatim>\<open>{version: v1, env: prod}\<close> whose node has a region and a zone, the second on a pod
  tagged \<^verbatim>\<open>{version: v2}\<close> whose node has no zone label, the third with no pod, the
  fourth on a pod tagged \<^verbatim>\<open>{version: v1}\<close> whose node is not in the Node mirror; and
  the service \<^verbatim>\<open>external\<close>, which does not convert. The pods run under the service
  account \<^verbatim>\<open>bar\<close>.
\<close>

definition sampleConversion :: Conversion where
  "sampleConversion item suffix =
     (if svc_ClusterIP item = [] then None
      else Some \<lparr>s_Hostname = serviceHostname (svc_Name item) (svc_Namespace item) suffix,
                 s_Ports = map (\<lambda>(name, port). \<lparr>port_Name = name, port_Port = sint port\<rparr>)
                               (svc_Ports item)\<rparr>)"

definition reviewsService :: K8sService where
  "reviewsService =
     \<lparr>svc_Name = ''reviews'', svc_Namespace = ''foo'', svc_ClusterIP = ''10.0.0.1'',
      svc_Ports = [(''http'', 80), (''grpc'', 90)]\<rparr>"

definition ratingsService :: K8sService where
  "ratingsService =
     \<lparr>svc_Name = ''ratings'', svc_Namespace = ''foo'', svc_ClusterIP = ''10.0.0.2'',
      svc_Ports = [(''http'', 80)]\<rparr>"

definition externalService :: K8sService where
  "externalService =
     \<lparr>svc_Name = ''external'', svc_Namespace = ''foo'', svc_ClusterIP = [],
      svc_Ports = [(''http'', 80)]\<rparr>"

definition reviewsEndpoints :: Endpoints where
  "reviewsEndpoints =
     \<lparr>ep_Name = ''reviews'', ep_Namespace = ''foo'',
      ep_Subsets =
        [\<lparr>ss_Addresses = [\<lparr>ea_IP = ''10.1.0.1''\<rparr>],
          ss_Ports = [\<lparr>epp_Name = ''http'', epp_Port = 8080\<rparr>,
                      \<lparr>epp_Name = ''grpc'', epp_Port = 9090\<rparr>]\<rparr>]\<rparr>"

definition ratingsSubset :: EndpointSubset where
  "ratingsSubset =
     \<lparr>ss_Addresses = [\<lparr>ea_IP = ''10.1.0.1''\<rparr>, \<lparr>ea_IP = ''10.1.0.2''\<rparr>,
                      \<lparr>ea_IP = ''10.1.0.3''\<rparr>, \<lparr>ea_IP = ''10.1.0.4''\<rparr>],
      ss_Ports = [\<lparr>epp_Name = ''http'', epp_Port = 8080\<rparr>]\<rparr>"

definition ratingsEndpoints :: Endpoints where
  "ratingsEndpoints =
     \<lparr>ep_Name = ''ratings'', ep_Namespace = ''foo'', ep_Subsets = [ratingsSubset]\<rparr>"

definition externalEndpoints :: Endpoints where
  "externalEndpoints = \<lparr>ep_Name = ''external'', ep_Namespace = ''foo'', ep_Subsets = []\<rparr>"

definition node1 :: Node where
  "node1 =
     \<lparr>node_Name = ''node-1'',
      node_Labels = [(''failure-domain.beta.kubernetes.io/region'', ''us-east1''),
                     (''failure-domain.beta.kubernetes.io/zone'', ''b'')]\<rparr>"

definition node2 :: Node where
  "node2 =
     \<lparr>node_Name = ''node-2'',
      node_Labels = [(''failure-domain.beta.kubernetes.io/region'', ''us-east1'')]\<rparr>"

definition podA :: Pod where
  "podA =
     \<lparr>pod_Name = ''pod-a'', pod_Namespace = ''foo'',
      pod_Labels = [(''version'', ''v1''), (''env'', ''prod'')],
      pod_NodeName = ''node-1'', pod_ServiceAccountName = ''bar''\<rparr>"

definition podB :: Pod where
  "podB =
     \<lparr>pod_Name = ''pod-b'', pod_Namespace = ''foo'', pod_Labels = [(''version'', ''v2'')],
      pod_NodeName = ''node-2'', pod_ServiceAccountName = ''bar''\<rparr>"

definition podC :: Pod where
  "podC =
     \<lparr>pod_Name = ''pod-c'', pod_Namespace = ''foo'', pod_Labels = [(''version'', ''v1'')],
      pod_NodeName = ''node-3'', pod_ServiceAccountName = ''bar''\<rparr>"

definition sampleController :: Controller where
  "sampleController =
     \<lparr>domainSuffix = ''cluster.local'',
      queue = [],
      services =
        \<lparr>inf_store = [(''foo/reviews'', reviewsService), (''foo/ratings'', ratingsService),
                       (''foo/external'', externalService)],
         inf_synced = True\<rparr>,
      endpoints =
        \<lparr>inf_store = [(''foo/ratings'', ratingsEndpoints), (''foo/reviews'', reviewsEndpoints),
                       (''foo/external'', externalEndpoints)],
         inf_synced = True\<rparr>,
      nodes =
        \<lparr>inf_store = [(''node-1'', node1), (''node-2'', node2)], inf_synced = True\<rparr>,
      pods =
        \<lparr>pc_informer =
           \<lparr>inf_store = [(''foo/pod-a'', podA), (''foo/pod-b'', podB), (''foo/pod-c'', podC)],
            inf_synced = True\<rparr>,
         pc_keys = [(''10.1.0.1'', ''foo/pod-a''), (''10.1.0.2'', ''foo/pod-b''),
                    (''10.1.0.4'', ''foo/pod-c'')]\<rparr>\<rparr>"

section \<open>Synchronisation gate: results\<close>

lemma HasSynced_iff:
  "HasSynced c =
     (informer_HasSynced (services c) \<and> informer_HasSynced (endpoints c) \<and>
      informer_HasSynced (pc_informer (pods c)))"
  by (simp add: HasSynced_def)

text \<open>
  C1. A controller whose Service, Endpoints and Pod mirrors have completed their initial
  list and whose Node mirror has not: \<^verbatim>\<open>HasSynced\<close> answers true, since it never asks the
  Node mirror.
\<close>

theorem HasSynced_ignores_nodes:
  "\<not> informer_HasSynced (nodes
       ((NewController \<lparr>Namespace = [], ResyncPeriod = 1000, DomainSuffix = ''cluster.local''\<rparr>)
          \<lparr>services := \<lparr>inf_store = [], inf_synced = True\<rparr>,
           endpoints := \<lparr>inf_store = [], inf_synced = True\<rparr>,
           pods := \<lparr>pc_informer = \<lparr>inf_store = [], inf_synced = True\<rparr>, pc_keys = []\<rparr>\<rparr>))
   \<and> HasSynced
       ((NewController \<lparr>Namespace = [], ResyncPeriod = 1000, DomainSuffix = ''cluster.local''\<rparr>)
          \<lparr>services := \<lparr>inf_store = [], inf_synced = True\<rparr>,
           endpoints := \<lparr>inf_store = [], inf_synced = True\<rparr>,
           pods := \<lparr>pc_informer = \<lparr>inf_store = [], inf_synced = True\<rparr>, pc_keys = []\<rparr>\<rparr>)"
  by (simp add: HasSynced_iff informer_HasSynced_def NewController_def)

theorem HasSynced_ignores_nodes_witness:
  "\<exists>c. \<not> informer_HasSynced (nodes c) \<and> HasSynced c"
  using HasSynced_ignores_nodes by blast

text \<open>
  C2. \<^verbatim>\<open>notify\<close> returns an error exactly when \<^verbatim>\<open>HasSynced\<close> is false, and nil exactly
  when it is true, whatever the object and the event: a key that cannot be derived is
  logged and nothing more.
\<close>

theorem notify_error_iff_not_synced:
  "((\<exists>msg. fst (notify c obj event) = ReturnsError msg) = (\<not> HasSynced c)) \<and>
   ((fst (notify c obj event) = ReturnsNil) = HasSynced c) \<and>
   (\<forall>msg. fst (notify c obj event) \<noteq> Panics msg)"
  by (simp add: notify_def split: sum.split)

theorem notify_error_iff_not_synced_witness:
  "HasSynced
     ((NewController \<lparr>Namespace = [], ResyncPeriod = 1000, DomainSuffix = ''cluster.local''\<rparr>)
        \<lparr>services := \<lparr>inf_store = [], inf_synced = True\<rparr>,
         endpoints := \<lparr>inf_store = [], inf_synced = True\<rparr>,
         pods := \<lparr>pc_informer = \<lparr>inf_store = [], inf_synced = True\<rparr>, pc_keys = []\<rparr>\<rparr>) \<and>
   DeletionHandlingMetaNamespaceKeyFunc OtherObj = Inl ''object has no meta'' \<and>
   fst (notify
     ((NewController \<lparr>Namespace = [], ResyncPeriod = 1000, DomainSuffix = ''cluster.local''\<rparr>)
        \<lparr>services := \<lparr>inf_store = [], inf_synced = True\<rparr>,
         endpoints := \<lparr>inf_store = [], inf_synced = True\<rparr>,
         pods := \<lparr>pc_informer = \<lparr>inf_store = [], inf_synced = True\<rparr>, pc_keys = []\<rparr>\<rparr>)
     OtherObj EventDelete) = ReturnsNil \<and>
   fst (notify
     (NewController \<lparr>Namespace = [], ResyncPeriod = 1000, DomainSuffix = ''cluster.local''\<rparr>)
     OtherObj EventDelete) = ReturnsError ''Waiting till full synchronization''"
  using notify_error_iff_not_synced
    [of "(NewController \<lparr>Namespace = [], ResyncPeriod = 1000, DomainSuffix = ''cluster.local''\<rparr>)
        \<lparr>services := \<lparr>inf_store = [], inf_synced = True\<rparr>,
         endpoints := \<lparr>inf_store = [], inf_synced = True\<rparr>,
         pods := \<lparr>pc_informer = \<lparr>inf_store = [], inf_synced = True\<rparr>, pc_keys = []\<rparr>\<rparr>"
     OtherObj EventDelete]
  by (simp add: HasSynced_def informer_HasSynced_def MetaNamespaceKeyFunc_def
      NewController_def notify_def)

section \<open>Event callbacks: results\<close>

lemma queue_deliver:
  "queue (deliver h c n) =
     (if propagated n
      then queue c @
           [\<lparr>task_handler = h,
             task_obj = (case n of Added obj \<Rightarrow> obj | Updated old cur \<Rightarrow> cur | Deleted obj \<Rightarrow> obj),
             task_event = (case n of Added obj \<Rightarrow> EventAdd | Updated old cur \<Rightarrow> EventUpdate
                           | Deleted obj \<Rightarrow> EventDelete)\<rparr>]
      else queue c)"
  by (cases n) (simp_all add: AddFunc_def UpdateFunc_def DeleteFunc_def Push_def)

lemma length_queue_deliver_all:
  "length (queue (foldl (deliver h) c ns)) = length (queue c) + length (filter propagated ns)"
  by (induction ns arbitrary: c) (simp_all add: queue_deliver)

text \<open>
  C5. The update callback pushes its task exactly when the new value is not deeply equal
  to the old one, and leaves the controller as it was otherwise; the add and the delete
  callback push exactly one task each. So, over any sequence of observations, the queue
  grows by the number of adds, deletes and updates that changed the value.
\<close>

theorem update_pushed_iff_not_deep_equal:
  "(queue (UpdateFunc h c old cur) =
      (if DeepEqual old cur then queue c
       else queue c @ [\<lparr>task_handler = h, task_obj = cur, task_event = EventUpdate\<rparr>])) \<and>
   ((length (queue (UpdateFunc h c old cur)) = Suc (length (queue c))) = (\<not> DeepEqual old cur)) \<and>
   ((UpdateFunc h c old cur = c) = DeepEqual old cur) \<and>
   queue (AddFunc h c obj) =
      queue c @ [\<lparr>task_handler = h, task_obj = obj, task_event = EventAdd\<rparr>] \<and>
   queue (DeleteFunc h c obj) =
      queue c @ [\<lparr>task_handler = h, task_obj = obj, task_event = EventDelete\<rparr>] \<and>
   length (queue (foldl (deliver h) c ns)) = length (queue c) + length (filter propagated ns)"
proof -
  have "(UpdateFunc h c old cur = c) = DeepEqual old cur"
  proof
    assume "UpdateFunc h c old cur = c"
    then have "queue (UpdateFunc h c old cur) = queue c" by simp
    then show "DeepEqual old cur"
      by (simp add: UpdateFunc_def Push_def split: if_splits)
  next
    assume "DeepEqual old cur"
    then show "UpdateFunc h c old cur = c" by (simp add: UpdateFunc_def)
  qed
  then show ?thesis
    by (simp add: UpdateFunc_def AddFunc_def DeleteFunc_def Push_def length_queue_deliver_all)
qed

theorem update_pushed_iff_not_deep_equal_witness:
  "DeepEqual (NodeObj \<lparr>node_Name = ''n1'', node_Labels = [(''a'', ''b'')]\<rparr>)
             (NodeObj \<lparr>node_Name = ''n1'', node_Labels = [(''a'', ''b'')]\<rparr>) \<and>
   UpdateFunc NodeKind
     (NewController \<lparr>Namespace = [], ResyncPeriod = 1000, DomainSuffix = ''cluster.local''\<rparr>)
     (NodeObj \<lparr>node_Name = ''n1'', node_Labels = [(''a'', ''b'')]\<rparr>)
     (NodeObj \<lparr>node_Name = ''n1'', node_Labels = [(''a'', ''b'')]\<rparr>) =
   NewController \<lparr>Namespace = [], ResyncPeriod = 1000, DomainSuffix = ''cluster.local''\<rparr> \<and>
   length (queue (foldl (deliver NodeKind)
     (NewController \<lparr>Namespace = [], ResyncPeriod = 1000, DomainSuffix = ''cluster.local''\<rparr>)
     [Added (NodeObj \<lparr>node_Name = ''n1'', node_Labels = []\<rparr>),
      Updated (NodeObj \<lparr>node_Name = ''n1'', node_Labels = []\<rparr>)
              (NodeObj \<lparr>node_Name = ''n1'', node_Labels = []\<rparr>),
      Updated (NodeObj \<lparr>node_Name = ''n1'', node_Labels = []\<rparr>)
              (NodeObj \<lparr>node_Name = ''n1'', node_Labels = [(''a'', ''b'')]\<rparr>),
      Deleted (NodeObj \<lparr>node_Name = ''n1'', node_Labels = [(''a'', ''b'')]\<rparr>)])) = 3"
  using update_pushed_iff_not_deep_equal
    [of NodeKind
        "NewController \<lparr>Namespace = [], ResyncPeriod = 1000, DomainSuffix = ''cluster.local''\<rparr>"
        "NodeObj \<lparr>node_Name = ''n1'', node_Labels = [(''a'', ''b'')]\<rparr>"
        "NodeObj \<lparr>node_Name = ''n1'', node_Labels = [(''a'', ''b'')]\<rparr>"
        OtherObj
        "[Added (NodeObj \<lparr>node_Name = ''n1'', node_Labels = []\<rparr>),
          Updated (NodeObj \<lparr>node_Name = ''n1'', node_Labels = []\<rparr>)
                  (NodeObj \<lparr>node_Name = ''n1'', node_Labels = []\<rparr>),
          Updated (NodeObj \<lparr>node_Name = ''n1'', node_Labels = []\<rparr>)
                  (NodeObj \<lparr>node_Name = ''n1'', node_Labels = [(''a'', ''b'')]\<rparr>),
          Deleted (NodeObj \<lparr>node_Name = ''n1'', node_Labels = [(''a'', ''b'')]\<rparr>)]"]
  by (simp add: DeepEqual_def NewController_def)

section \<open>Workload identities: results\<close>

lemma distinct_foldl_insert:
  "distinct acc \<Longrightarrow>
   distinct (foldl (\<lambda>saSet x. case g x of None \<Rightarrow> saSet | Some y \<Rightarrow> List.insert y saSet) acc xs)"
  by (induction xs arbitrary: acc) (simp_all split: option.split)

lemma set_foldl_insert:
  "set (foldl (\<lambda>saSet x. case g x of None \<Rightarrow> saSet | Some y \<Rightarrow> List.insert y saSet) acc xs) =
   set acc \<union> {y. \<exists>x \<in> set xs. g x = Some y}"
  by (induction xs arbitrary: acc) (auto split: option.splits)

lemma GetIstioServiceAccounts_by_pod:
  "GetIstioServiceAccounts conv c hostname ports =
   foldl (\<lambda>saSet si.
            case map_option
                   (\<lambda>pod. generateServiceAccountID (pod_ServiceAccountName pod)
                            (pod_Namespace pod) (domainSuffix c))
                   (getPodByIP (pods c) (ne_Address (si_Endpoint si))) of
              None \<Rightarrow> saSet
            | Some y \<Rightarrow> List.insert y saSet)
     [] (Instances conv c hostname ports [])"
  unfolding GetIstioServiceAccounts_def getPodByIP_def
  by (rule arg_cong [where f = "\<lambda>f. foldl f [] (Instances conv c hostname ports [])"])
     (auto simp: fun_eq_iff split: option.splits)

text \<open>
  C7. The identity of an account is \<^verbatim>\<open>spiffe://<domain>/ns/<namespace>/sa/<account>\<close>,
  and \<^verbatim>\<open>GetIstioServiceAccounts\<close> returns each identity once: the identities of the pods
  behind the instances of the hostname, without repetition.
\<close>

theorem service_account_identities:
  "generateServiceAccountID sa ns domain =
     ''spiffe://'' @ domain @ ''/ns/'' @ ns @ ''/sa/'' @ sa \<and>
   generateServiceAccountID ''bar'' ''foo'' ''cluster.local'' =
     ''spiffe://cluster.local/ns/foo/sa/bar'' \<and>
   distinct (GetIstioServiceAccounts convertService c hostname ports) \<and>
   set (GetIstioServiceAccounts convertService c hostname ports) =
     {generateServiceAccountID (pod_ServiceAccountName pod) (pod_Namespace pod) (domainSuffix c)
      | pod si. si \<in> set (Instances convertService c hostname ports []) \<and>
                getPodByIP (pods c) (ne_Address (si_Endpoint si)) = Some pod}"
proof -
  have "distinct (GetIstioServiceAccounts convertService c hostname ports)"
    unfolding GetIstioServiceAccounts_by_pod by (rule distinct_foldl_insert) simp
  moreover have "set (GetIstioServiceAccounts convertService c hostname ports) =
     {generateServiceAccountID (pod_ServiceAccountName pod) (pod_Namespace pod) (domainSuffix c)
      | pod si. si \<in> set (Instances convertService c hostname ports []) \<and>
                getPodByIP (pods c) (ne_Address (si_Endpoint si)) = Some pod}"
    unfolding GetIstioServiceAccounts_by_pod set_foldl_insert by auto
  ultimately show ?thesis
    by (simp add: generateServiceAccountID_def uriScheme_def)
qed

theorem service_account_identities_witness:
  "length (Instances sampleConversion sampleController ''ratings.foo.cluster.local'' [''http''] [])
     = 4 \<and>
   GetIstioServiceAccounts sampleConversion sampleController ''ratings.foo.cluster.local''
     [''http''] = [''spiffe://cluster.local/ns/foo/sa/bar''] \<and>
   distinct (GetIstioServiceAccounts sampleConversion sampleController
     ''ratings.foo.cluster.local'' [''http''])"
proof -
  have "length (Instances sampleConversion sampleController ''ratings.foo.cluster.local''
          [''http''] []) = 4"
    by code_simp
  moreover have "GetIstioServiceAccounts sampleConversion sampleController
     ''ratings.foo.cluster.local'' [''http''] = [''spiffe://cluster.local/ns/foo/sa/bar'']"
    by code_simp
  ultimately show ?thesis
    using service_account_identities
      [of "''bar''" "''foo''" "''cluster.local''" sampleConversion sampleController
          "''ratings.foo.cluster.local''" "[''http'']"]
    by blast
qed

section \<open>Appended stages: results\<close>

lemma instanceHandler_calls:
  "snd (instanceHandler conv c f obj event w) =
   foldl (\<lambda>w (si, e). f si e w) w (snd (instanceHandler conv c recordCall obj event []))"
  by (simp add: instanceHandler_def recordCall_def split: Obj.split option.split)

lemma serviceHandler_calls:
  "snd (serviceHandler conv c f obj event w) =
   foldl (\<lambda>w (svc, e). f svc e w) w (snd (serviceHandler conv c recordCall obj event []))"
  by (simp add: serviceHandler_def recordCall_def split: Obj.split option.split)

text \<open>
  C9. Every invocation the instance stage makes of its callback passes the event and an
  instance whose endpoint, tags and availability zone are zero values and whose service
  is the conversion of the Service mirror entry with the Endpoints object's name and
  namespace. With such an entry that converts, the stage invokes the callback once and
  returns nil; with no entry, or one that does not convert, it returns nil without an
  invocation. What any callback does is what it does on the recorded invocations.
\<close>

theorem instance_callback_gets_service_only:
  "(\<forall>(si, e) \<in> set (snd (instanceHandler convertService c recordCall obj event [])).
      e = event \<and> si_Endpoint si = zeroNetworkEndpoint \<and> si_Tags si = [] \<and>
      si_AvailabilityZone si = [] \<and>
      (\<exists>ep item svc. obj = EndpointsObj ep \<and>
         serviceByKey c (ep_Name ep) (ep_Namespace ep) = Some item \<and>
         convertService item (domainSuffix c) = Some svc \<and> si_Service si = Some svc)) \<and>
   (serviceByKey c (ep_Name ep) (ep_Namespace ep) = Some item \<and>
    convertService item (domainSuffix c) = Some svc \<longrightarrow>
      instanceHandler convertService c recordCall (EndpointsObj ep) event [] =
        (ReturnsNil,
         [(\<lparr>si_Endpoint = zeroNetworkEndpoint, si_Service = Some svc, si_Tags = [],
            si_AvailabilityZone = []\<rparr>, event)])) \<and>
   (serviceByKey c (ep_Name ep) (ep_Namespace ep) = None \<or>
    (\<exists>item. serviceByKey c (ep_Name ep) (ep_Namespace ep) = Some item \<and>
            convertService item (domainSuffix c) = None) \<longrightarrow>
      instanceHandler convertService c recordCall (EndpointsObj ep) event [] = (ReturnsNil, [])) \<and>
   snd (instanceHandler convertService c f obj event w) =
     foldl (\<lambda>w (si, e). f si e w) w
       (snd (instanceHandler convertService c recordCall obj event []))"
proof -
  have 1: "\<forall>(si, e) \<in> set (snd (instanceHandler convertService c recordCall obj event [])).
      e = event \<and> si_Endpoint si = zeroNetworkEndpoint \<and> si_Tags si = [] \<and>
      si_AvailabilityZone si = [] \<and>
      (\<exists>ep item svc. obj = EndpointsObj ep \<and>
         serviceByKey c (ep_Name ep) (ep_Namespace ep) = Some item \<and>
         convertService item (domainSuffix c) = Some svc \<and> si_Service si = Some svc)"
    by (cases obj) (auto simp: instanceHandler_def recordCall_def split: option.split)
  have 2: "serviceByKey c (ep_Name ep) (ep_Namespace ep) = Some item \<and>
    convertService item (domainSuffix c) = Some svc \<longrightarrow>
      instanceHandler convertService c recordCall (EndpointsObj ep) event [] =
        (ReturnsNil,
         [(\<lparr>si_Endpoint = zeroNetworkEndpoint, si_Service = Some svc, si_Tags = [],
            si_AvailabilityZone = []\<rparr>, event)])"
    by (simp add: instanceHandler_def recordCall_def)
  have 3: "serviceByKey c (ep_Name ep) (ep_Namespace ep) = None \<or>
    (\<exists>item. serviceByKey c (ep_Name ep) (ep_Namespace ep) = Some item \<and>
            convertService item (domainSuffix c) = None) \<longrightarrow>
      instanceHandler convertService c recordCall (EndpointsObj ep) event [] = (ReturnsNil, [])"
    by (auto simp: instanceHandler_def)
  from 1 2 3 instanceHandler_calls [of convertService c f obj event w] show ?thesis
    by blast
qed

theorem instance_callback_gets_service_only_witness:
  "serviceByKey sampleController (ep_Name reviewsEndpoints) (ep_Namespace reviewsEndpoints) =
     Some reviewsService \<and>
   sampleConversion reviewsService (domainSuffix sampleController) =
     Some \<lparr>s_Hostname = ''reviews.foo.cluster.local'',
           s_Ports = [\<lparr>port_Name = ''http'', port_Port = 80\<rparr>,
                      \<lparr>port_Name = ''grpc'', port_Port = 90\<rparr>]\<rparr> \<and>
   instanceHandler sampleConversion sampleController recordCall (EndpointsObj reviewsEndpoints)
     EventUpdate [] =
     (ReturnsNil,
      [(\<lparr>si_Endpoint = zeroNetworkEndpoint,
         si_Service = Some \<lparr>s_Hostname = ''reviews.foo.cluster.local'',
                            s_Ports = [\<lparr>port_Name = ''http'', port_Port = 80\<rparr>,
                                       \<lparr>port_Name = ''grpc'', port_Port = 90\<rparr>]\<rparr>,
         si_Tags = [], si_AvailabilityZone = []\<rparr>, EventUpdate)]) \<and>
   serviceByKey sampleController (ep_Name externalEndpoints) (ep_Namespace externalEndpoints) =
     Some externalService \<and>
   sampleConversion externalService (domainSuffix sampleController) = None \<and>
   instanceHandler sampleConversion sampleController recordCall (EndpointsObj externalEndpoints)
     EventAdd [] = (ReturnsNil, [])"
proof -
  have a: "serviceByKey sampleController (ep_Name reviewsEndpoints)
             (ep_Namespace reviewsEndpoints) = Some reviewsService"
    by code_simp
  have b: "sampleConversion reviewsService (domainSuffix sampleController) =
     Some \<lparr>s_Hostname = ''reviews.foo.cluster.local'',
           s_Ports = [\<lparr>port_Name = ''http'', port_Port = 80\<rparr>,
                      \<lparr>port_Name = ''grpc'', port_Port = 90\<rparr>]\<rparr>"
    by code_simp
  have c: "serviceByKey sampleController (ep_Name externalEndpoints)
             (ep_Namespace externalEndpoints) = Some externalService"
    by code_simp
  have d: "sampleConversion externalService (domainSuffix sampleController) = None"
    by code_simp
  have r1: "instanceHandler sampleConversion sampleController recordCall
     (EndpointsObj reviewsEndpoints) EventUpdate [] =
     (ReturnsNil,
      [(\<lparr>si_Endpoint = zeroNetworkEndpoint,
         si_Service = Some \<lparr>s_Hostname = ''reviews.foo.cluster.local'',
                            s_Ports = [\<lparr>port_Name = ''http'', port_Port = 80\<rparr>,
                                       \<lparr>port_Name = ''grpc'', port_Port = 90\<rparr>]\<rparr>,
         si_Tags = [], si_AvailabilityZone = []\<rparr>, EventUpdate)])"
    by (rule instance_callback_gets_service_only
          [where convertService = sampleConversion and c = sampleController
             and ep = reviewsEndpoints and event = EventUpdate,
           THEN conjunct2, THEN conjunct1, rule_format, OF conjI [OF a b]])
  have ex: "\<exists>item. serviceByKey sampleController (ep_Name externalEndpoints)
              (ep_Namespace externalEndpoints) = Some item \<and>
            sampleConversion item (domainSuffix sampleController) = None"
    by (rule exI [of _ externalService]) (rule conjI [OF c d])
  have r2: "instanceHandler sampleConversion sampleController recordCall
     (EndpointsObj externalEndpoints) EventAdd [] = (ReturnsNil, [])"
    by (rule instance_callback_gets_service_only
          [where convertService = sampleConversion and c = sampleController
             and ep = externalEndpoints and event = EventAdd,
           THEN conjunct2, THEN conjunct2, THEN conjunct1, rule_format,
           OF disjI2 [OF ex]])
  show ?thesis by (intro conjI a b r1 c d r2)
qed

text \<open>
  On an object of its own kind each appended stage returns nil, whatever the callback and
  the event, and on no object does either stage return an error. The service stage
  invokes its callback only with the conversion of the Service object it was given, and
  what any callback does is what it does on the recorded invocations.
\<close>

lemma appended_stages_return_nil:
  "fst (serviceHandler convertService c f (ServiceObj s) event w) = ReturnsNil \<and>
   fst (instanceHandler convertService c g (EndpointsObj ep) event v) = ReturnsNil \<and>
   (\<forall>msg. fst (serviceHandler convertService c f obj event w) \<noteq> ReturnsError msg) \<and>
   (\<forall>msg. fst (instanceHandler convertService c g obj event v) \<noteq> ReturnsError msg) \<and>
   (\<forall>(svc, e) \<in> set (snd (serviceHandler convertService c recordCall obj event [])).
      e = event \<and> (\<exists>s'. obj = ServiceObj s' \<and> convertService s' (domainSuffix c) = Some svc)) \<and>
   snd (serviceHandler convertService c f obj event w) =
     foldl (\<lambda>w (svc, e). f svc e w) w
       (snd (serviceHandler convertService c recordCall obj event []))"
proof -
  have "\<forall>(svc, e) \<in> set (snd (serviceHandler convertService c recordCall obj event [])).
      e = event \<and> (\<exists>s'. obj = ServiceObj s' \<and> convertService s' (domainSuffix c) = Some svc)"
    by (cases obj) (auto simp: serviceHandler_def recordCall_def split: option.split)
  moreover have "\<forall>msg. fst (serviceHandler convertService c f obj event w) \<noteq> ReturnsError msg"
    by (simp add: serviceHandler_def split: Obj.split option.split)
  moreover have "\<forall>msg. fst (instanceHandler convertService c g obj event v) \<noteq> ReturnsError msg"
    by (simp add: instanceHandler_def split: Obj.split option.split)
  moreover have "fst (serviceHandler convertService c f (ServiceObj s) event w) = ReturnsNil"
    by (simp add: serviceHandler_def split: option.split)
  moreover have "fst (instanceHandler convertService c g (EndpointsObj ep) event v) = ReturnsNil"
    by (simp add: instanceHandler_def split: option.split)
  ultimately show ?thesis
    using serviceHandler_calls [of convertService c f obj event w] by blast
qed

text \<open>
  C10. A delete callback queues the object it is handed, and an informer that missed a
  deletion hands it the tombstone \<^verbatim>\<open>DeletedFinalStateUnknown\<close>. On the tombstone of a
  service, \<^verbatim>\<open>notify\<close> derives the key and returns nil, and the service stage that runs
  next panics at its type assertion instead of returning nil; the instance stage does
  the same on the tombstone of an Endpoints object.
\<close>

theorem appended_stages_panic_on_tombstone:
  "queue (DeleteFunc ServiceKind sampleController
            (DeletedFinalStateUnknown ''foo/reviews'' (ServiceObj reviewsService))) =
     [\<lparr>task_handler = ServiceKind,
       task_obj = DeletedFinalStateUnknown ''foo/reviews'' (ServiceObj reviewsService),
       task_event = EventDelete\<rparr>] \<and>
   notify sampleController
     (DeletedFinalStateUnknown ''foo/reviews'' (ServiceObj reviewsService)) EventDelete =
     (ReturnsNil, [EventKey EventDelete ''foo/reviews'']) \<and>
   serviceHandler sampleConversion sampleController recordCall
     (DeletedFinalStateUnknown ''foo/reviews'' (ServiceObj reviewsService)) EventDelete [] =
     (Panics ''interface conversion: interface {} is not *v1.Service'', []) \<and>
   notify sampleController
     (DeletedFinalStateUnknown ''foo/reviews'' (EndpointsObj reviewsEndpoints)) EventDelete =
     (ReturnsNil, [EventKey EventDelete ''foo/reviews'']) \<and>
   instanceHandler sampleConversion sampleController recordCall
     (DeletedFinalStateUnknown ''foo/reviews'' (EndpointsObj reviewsEndpoints)) EventDelete [] =
     (Panics ''interface conversion: interface {} is not *v1.Endpoints'', [])"
  by (simp add: serviceHandler_def instanceHandler_def notify_def HasSynced_def
      informer_HasSynced_def sampleController_def DeleteFunc_def Push_def)

theorem appended_stages_panic_on_tombstone_witness:
  "\<exists>obj. fst (notify sampleController obj EventDelete) = ReturnsNil \<and>
         (\<exists>msg. fst (serviceHandler sampleConversion sampleController recordCall obj
                        EventDelete []) = Panics msg)"
proof -
  note T = appended_stages_panic_on_tombstone
  have "fst (notify sampleController
          (DeletedFinalStateUnknown ''foo/reviews'' (ServiceObj reviewsService)) EventDelete) =
        ReturnsNil"
    by (simp add: T [THEN conjunct2, THEN conjunct1])
  moreover have "fst (serviceHandler sampleConversion sampleController recordCall
          (DeletedFinalStateUnknown ''foo/reviews'' (ServiceObj reviewsService)) EventDelete []) =
        Panics ''interface conversion: interface {} is not *v1.Service''"
    by (simp add: T [THEN conjunct2, THEN conjunct2, THEN conjunct1])
  ultimately show ?thesis
    by (intro exI [of _ "DeletedFinalStateUnknown ''foo/reviews'' (ServiceObj reviewsService)"]
        conjI exI [of _ "''interface conversion: interface {} is not *v1.Service''"])
qed

section \<open>Instances: results\<close>

lemma foldl_locate:
  "foldl (\<lambda>svcPorts port.
              case g port of
                Some svcPort \<Rightarrow> svcPorts(port \<mapsto> svcPort)
              | None \<Rightarrow> svcPorts) m ports n =
   (if n \<in> set ports \<and> g n \<noteq> None then g n else m n)"
  by (induction ports arbitrary: m) (auto split: option.splits)

lemma locatePorts_lookup:
  "locatePorts svc ports n = (if n \<in> set ports then Get (s_Ports svc) n else None)"
  unfolding locatePorts_def by (simp add: foldl_locate)

lemma set_portInstances:
  "si \<in> set (portInstances svc svcPorts ea tags az ps) \<longleftrightarrow>
   (\<exists>port \<in> set ps. \<exists>svcPort. svcPorts (epp_Name port) = Some svcPort \<and>
      si = \<lparr>si_Endpoint = \<lparr>ne_Address = ea_IP ea, ne_Port = sint (epp_Port port),
                            ne_ServicePort = Some svcPort\<rparr>,
            si_Service = Some svc, si_Tags = tags, si_AvailabilityZone = az\<rparr>)"
  by (induction ps) (auto simp: portInstances_def split: option.splits)

lemma length_portInstances:
  "length (portInstances svc svcPorts ea tags az ps) =
   length (filter (\<lambda>port. svcPorts (epp_Name port) \<noteq> None) ps)"
  unfolding portInstances_def by (induction ps) (auto split: option.splits)

lemma find_unique:
  assumes "x \<in> set xs" and "P x" and "\<forall>y \<in> set xs. P y \<longrightarrow> y = x"
  shows "find P xs = Some x"
proof (cases "find P xs")
  case None
  with assms(1,2) show ?thesis by (simp add: find_None_iff)
next
  case (Some y)
  then have "y \<in> set xs" and "P y"
    by (auto simp: find_Some_iff)
  with assms(3) have "y = x" by simp
  with Some show ?thesis by simp
qed

lemma Instances_found:
  assumes "parseHostname hostname = Inr (name, namespace)"
    and "serviceByKey c name namespace = Some item"
    and "conv item (domainSuffix c) = Some svc"
    and "find (\<lambda>ep. ep_Name ep = name \<and> ep_Namespace ep = namespace)
           (StoreList (endpoints c)) = Some ep"
  shows "Instances conv c hostname ports tagsList =
         endpointsInstances c svc (locatePorts svc ports) tagsList ep"
  using assms by (simp add: Instances_def)

lemma Instances_nonempty:
  assumes "Instances conv c hostname ports tagsList \<noteq> []"
  obtains name namespace item svc ep where
    "parseHostname hostname = Inr (name, namespace)"
    "serviceByKey c name namespace = Some item"
    "conv item (domainSuffix c) = Some svc"
    "find (\<lambda>ep. ep_Name ep = name \<and> ep_Namespace ep = namespace)
           (StoreList (endpoints c)) = Some ep"
  using assms
  by (auto simp: Instances_def split: sum.splits option.splits prod.splits)

lemma set_endpointsInstances:
  "si \<in> set (endpointsInstances c svc svcPorts tagsList ep) \<longleftrightarrow>
   (\<exists>ss \<in> set (ep_Subsets ep). \<exists>ea \<in> set (ss_Addresses ss).
      si \<in> set (addressInstances c svc svcPorts tagsList ss ea))"
  unfolding endpointsInstances_def by auto

lemma set_addressInstances:
  "si \<in> set (addressInstances c svc svcPorts tagsList ss ea) \<longleftrightarrow>
   HasSubsetOf tagsList (fst (tagsByIP (pods c) (ea_IP ea))) \<and>
   (\<exists>port \<in> set (ss_Ports ss). \<exists>svcPort. svcPorts (epp_Name port) = Some svcPort \<and>
      si = \<lparr>si_Endpoint = \<lparr>ne_Address = ea_IP ea, ne_Port = sint (epp_Port port),
                            ne_ServicePort = Some svcPort\<rparr>,
            si_Service = Some svc, si_Tags = fst (tagsByIP (pods c) (ea_IP ea)),
            si_AvailabilityZone = fst (getPodAZByIP c (ea_IP ea))\<rparr>)"
  unfolding addressInstances_def by (simp add: Let_def set_portInstances)

lemma Instances_member:
  assumes "si \<in> set (Instances conv c hostname ports tagsList)"
  shows "\<exists>name namespace item svc ep ss ea port svcPort.
      parseHostname hostname = Inr (name, namespace) \<and>
      serviceByKey c name namespace = Some item \<and>
      conv item (domainSuffix c) = Some svc \<and>
      ep \<in> set (StoreList (endpoints c)) \<and> ep_Name ep = name \<and> ep_Namespace ep = namespace \<and>
      ss \<in> set (ep_Subsets ep) \<and> ea \<in> set (ss_Addresses ss) \<and> port \<in> set (ss_Ports ss) \<and>
      epp_Name port \<in> set ports \<and> Get (s_Ports svc) (epp_Name port) = Some svcPort \<and>
      HasSubsetOf tagsList (fst (tagsByIP (pods c) (ea_IP ea))) \<and>
      si = \<lparr>si_Endpoint = \<lparr>ne_Address = ea_IP ea, ne_Port = sint (epp_Port port),
                            ne_ServicePort = Some svcPort\<rparr>,
            si_Service = Some svc, si_Tags = fst (tagsByIP (pods c) (ea_IP ea)),
            si_AvailabilityZone = fst (getPodAZByIP c (ea_IP ea))\<rparr>"
proof -
  from assms have "Instances conv c hostname ports tagsList \<noteq> []" by auto
  then obtain name namespace item svc ep where
    h: "parseHostname hostname = Inr (name, namespace)"
       "serviceByKey c name namespace = Some item"
       "conv item (domainSuffix c) = Some svc"
       "find (\<lambda>ep. ep_Name ep = name \<and> ep_Namespace ep = namespace)
           (StoreList (endpoints c)) = Some ep"
    by (rule Instances_nonempty)
  from h(4) have ep: "ep \<in> set (StoreList (endpoints c))" "ep_Name ep = name"
      "ep_Namespace ep = namespace"
    by (auto simp: find_Some_iff)
  from assms h have "si \<in> set (endpointsInstances c svc (locatePorts svc ports) tagsList ep)"
    by (simp add: Instances_found)
  then obtain ss ea port svcPort where
    m: "ss \<in> set (ep_Subsets ep)" "ea \<in> set (ss_Addresses ss)" "port \<in> set (ss_Ports ss)"
       "locatePorts svc ports (epp_Name port) = Some svcPort"
       "HasSubsetOf tagsList (fst (tagsByIP (pods c) (ea_IP ea)))"
       "si = \<lparr>si_Endpoint = \<lparr>ne_Address = ea_IP ea, ne_Port = sint (epp_Port port),
                            ne_ServicePort = Some svcPort\<rparr>,
            si_Service = Some svc, si_Tags = fst (tagsByIP (pods c) (ea_IP ea)),
            si_AvailabilityZone = fst (getPodAZByIP c (ea_IP ea))\<rparr>"
    unfolding set_endpointsInstances set_addressInstances by blast
  from m(4) have p: "epp_Name port \<in> set ports"
      "Get (s_Ports svc) (epp_Name port) = Some svcPort"
    by (auto simp: locatePorts_lookup split: if_splits)
  show ?thesis
    by (rule exI [of _ name], rule exI [of _ namespace], rule exI [of _ item],
        rule exI [of _ svc], rule exI [of _ ep], rule exI [of _ ss], rule exI [of _ ea],
        rule exI [of _ port], rule exI [of _ svcPort])
       (intro conjI h(1,2,3) ep m(1,2,3,5,6) p)
qed


lemma HasSubsetOf_empty: "HasSubsetOf [] tags"
  by (simp add: HasSubsetOf_def)

lemma filter_tags_portInstances:
  "filter (\<lambda>si. Q (si_Tags si)) (portInstances svc svcPorts ea tags az ps) =
   (if Q tags then portInstances svc svcPorts ea tags az ps else [])"
  by (induction ps) (auto simp: portInstances_def split: option.splits)

lemma addressInstances_filter:
  "filter (\<lambda>si. HasSubsetOf tagsList (si_Tags si)) (addressInstances c svc svcPorts [] ss ea) =
   addressInstances c svc svcPorts tagsList ss ea"
  by (simp add: addressInstances_def Let_def HasSubsetOf_empty filter_tags_portInstances)

lemma endpointsInstances_filter:
  "filter (\<lambda>si. HasSubsetOf tagsList (si_Tags si)) (endpointsInstances c svc svcPorts [] ep) =
   endpointsInstances c svc svcPorts tagsList ep"
  by (simp add: endpointsInstances_def filter_concat o_def addressInstances_filter)

lemma Instances_filter:
  "Instances conv c hostname ports tagsList =
   filter (\<lambda>si. HasSubsetOf tagsList (si_Tags si)) (Instances conv c hostname ports [])"
  by (simp add: Instances_def endpointsInstances_filter
      split: sum.split prod.split option.split)

lemma SubsetOf_iff: "SubsetOf t that = (\<forall>(k, v) \<in> set t. map_of that k = Some v)"
  by (simp add: SubsetOf_def list_all_iff)

lemma HasSubsetOf_iff:
  "HasSubsetOf tagsList that = (tagsList = [] \<or> (\<exists>t \<in> set tagsList. SubsetOf t that))"
  by (simp add: HasSubsetOf_def list_ex_iff)

lemma addressInstances_nonempty:
  "(addressInstances c svc svcPorts tagsList ss ea \<noteq> []) =
   (HasSubsetOf tagsList (fst (tagsByIP (pods c) (ea_IP ea))) \<and>
    (\<exists>port \<in> set (ss_Ports ss). svcPorts (epp_Name port) \<noteq> None))"
proof -
  have "(addressInstances c svc svcPorts tagsList ss ea \<noteq> []) =
        (\<exists>si. si \<in> set (addressInstances c svc svcPorts tagsList ss ea))"
    by (cases "addressInstances c svc svcPorts tagsList ss ea") auto
  then show ?thesis
    unfolding set_addressInstances by auto
qed

lemma erase_portInstances:
  "map (\<lambda>si. si\<lparr>si_AvailabilityZone := []\<rparr>) (portInstances svc svcPorts ea tags az ps) =
   portInstances svc svcPorts ea tags [] ps"
  by (induction ps) (auto simp: portInstances_def split: option.splits)

lemma nodes_update_simps:
  "serviceByKey (c\<lparr>nodes := n\<rparr>) name namespace = serviceByKey c name namespace"
  "tagsByIP (pods (c\<lparr>nodes := n\<rparr>)) = tagsByIP (pods c)"
  by (simp_all add: serviceByKey_def)

lemma erase_addressInstances:
  "map (\<lambda>si. si\<lparr>si_AvailabilityZone := []\<rparr>) (addressInstances c svc svcPorts tagsList ss ea) =
   (if HasSubsetOf tagsList (fst (tagsByIP (pods c) (ea_IP ea)))
    then portInstances svc svcPorts ea (fst (tagsByIP (pods c) (ea_IP ea))) [] (ss_Ports ss)
    else [])"
  by (simp add: addressInstances_def Let_def erase_portInstances)

lemma erase_endpointsInstances_nodes:
  "map (\<lambda>si. si\<lparr>si_AvailabilityZone := []\<rparr>)
     (endpointsInstances (c\<lparr>nodes := n\<rparr>) svc svcPorts tagsList ep) =
   map (\<lambda>si. si\<lparr>si_AvailabilityZone := []\<rparr>) (endpointsInstances c svc svcPorts tagsList ep)"
  by (simp add: endpointsInstances_def map_concat o_def erase_addressInstances cong: if_cong)

lemma erase_Instances_nodes:
  "map (\<lambda>si. si\<lparr>si_AvailabilityZone := []\<rparr>)
     (Instances conv (c\<lparr>nodes := n\<rparr>) hostname ports tagsList) =
   map (\<lambda>si. si\<lparr>si_AvailabilityZone := []\<rparr>) (Instances conv c hostname ports tagsList)"
  by (simp add: Instances_def nodes_update_simps erase_endpointsInstances_nodes
      split: sum.split prod.split option.split)

lemma Instances_AvailabilityZone:
  assumes "si \<in> set (Instances conv c hostname ports tagsList)"
  shows "si_AvailabilityZone si = fst (getPodAZByIP c (ne_Address (si_Endpoint si)))"
  using Instances_member [OF assms] by auto

lemma getPodAZByIP_cases:
  "(getPodByIP (pods c) addr = None \<longrightarrow> getPodAZByIP c addr = ([], False)) \<and>
   (getPodByIP (pods c) addr = Some pod \<and> GetByKey (nodes c) (pod_NodeName pod) = None \<longrightarrow>
      getPodAZByIP c addr = ([], False)) \<and>
   (getPodByIP (pods c) addr = Some pod \<and> GetByKey (nodes c) (pod_NodeName pod) = Some node \<and>
    (map_of (node_Labels node) NodeRegionLabel = None \<or>
     map_of (node_Labels node) NodeZoneLabel = None) \<longrightarrow>
      getPodAZByIP c addr = ([], False)) \<and>
   (getPodByIP (pods c) addr = Some pod \<and> GetByKey (nodes c) (pod_NodeName pod) = Some node \<and>
    map_of (node_Labels node) NodeRegionLabel = Some region \<and>
    map_of (node_Labels node) NodeZoneLabel = Some zone \<longrightarrow>
      getPodAZByIP c addr = (region @ ''/'' @ zone, True))"
  by (auto simp: getPodAZByIP_def split: option.splits)


text \<open>
  C3. Every instance \<^verbatim>\<open>Instances\<close> returns is built from the service the parsed hostname
  resolves to, an Endpoints mirror entry of the parsed name and namespace, one of its
  addresses and one of its subset's ports whose name was requested and names a port of
  the service. For a service that converts to the ports \<^verbatim>\<open>http:80\<close> and \<^verbatim>\<open>grpc:90\<close>
  and the one Endpoints entry of its name and namespace, with one address exposing
  \<^verbatim>\<open>http\<close> and \<^verbatim>\<open>grpc\<close>, the query for \<^verbatim>\<open>http\<close> with the empty filter returns one
  instance, matched to the service port \<^verbatim>\<open>http:80\<close>.
\<close>

theorem Instances_joins_requested_ports:
  "(\<forall>si \<in> set (Instances convertService c hostname ports tagsList).
      \<exists>name namespace item svc ep ss ea port svcPort.
        parseHostname hostname = Inr (name, namespace) \<and>
        serviceByKey c name namespace = Some item \<and>
        convertService item (domainSuffix c) = Some svc \<and>
        ep \<in> set (StoreList (endpoints c)) \<and> ep_Name ep = name \<and>
        ep_Namespace ep = namespace \<and>
        ss \<in> set (ep_Subsets ep) \<and> ea \<in> set (ss_Addresses ss) \<and> port \<in> set (ss_Ports ss) \<and>
        epp_Name port \<in> set ports \<and> Get (s_Ports svc) (epp_Name port) = Some svcPort \<and>
        HasSubsetOf tagsList (fst (tagsByIP (pods c) (ea_IP ea))) \<and>
        si = \<lparr>si_Endpoint = \<lparr>ne_Address = ea_IP ea, ne_Port = sint (epp_Port port),
                              ne_ServicePort = Some svcPort\<rparr>,
              si_Service = Some svc, si_Tags = fst (tagsByIP (pods c) (ea_IP ea)),
              si_AvailabilityZone = fst (getPodAZByIP c (ea_IP ea))\<rparr>) \<and>
   (parseHostname hostname = Inr (name, namespace) \<and>
    serviceByKey c name namespace = Some item \<and>
    convertService item (domainSuffix c) = Some svc \<and>
    s_Ports svc = [\<lparr>port_Name = ''http'', port_Port = 80\<rparr>,
                   \<lparr>port_Name = ''grpc'', port_Port = 90\<rparr>] \<and>
    ep \<in> set (StoreList (endpoints c)) \<and> ep_Name ep = name \<and> ep_Namespace ep = namespace \<and>
    (\<forall>e \<in> set (StoreList (endpoints c)).
        ep_Name e = name \<and> ep_Namespace e = namespace \<longrightarrow> e = ep) \<and>
    ep_Subsets ep = [\<lparr>ss_Addresses = [ea],
                      ss_Ports = [\<lparr>epp_Name = ''http'', epp_Port = p\<rparr>,
                                  \<lparr>epp_Name = ''grpc'', epp_Port = q\<rparr>]\<rparr>] \<longrightarrow>
    Instances convertService c hostname [''http''] [] =
      [\<lparr>si_Endpoint = \<lparr>ne_Address = ea_IP ea, ne_Port = sint p,
                        ne_ServicePort = Some \<lparr>port_Name = ''http'', port_Port = 80\<rparr>\<rparr>,
        si_Service = Some svc, si_Tags = fst (tagsByIP (pods c) (ea_IP ea)),
        si_AvailabilityZone = fst (getPodAZByIP c (ea_IP ea))\<rparr>])"
proof (intro conjI ballI impI)
  fix si
  assume "si \<in> set (Instances convertService c hostname ports tagsList)"
  then show "\<exists>name namespace item svc ep ss ea port svcPort.
        parseHostname hostname = Inr (name, namespace) \<and>
        serviceByKey c name namespace = Some item \<and>
        convertService item (domainSuffix c) = Some svc \<and>
        ep \<in> set (StoreList (endpoints c)) \<and> ep_Name ep = name \<and>
        ep_Namespace ep = namespace \<and>
        ss \<in> set (ep_Subsets ep) \<and> ea \<in> set (ss_Addresses ss) \<and> port \<in> set (ss_Ports ss) \<and>
        epp_Name port \<in> set ports \<and> Get (s_Ports svc) (epp_Name port) = Some svcPort \<and>
        HasSubsetOf tagsList (fst (tagsByIP (pods c) (ea_IP ea))) \<and>
        si = \<lparr>si_Endpoint = \<lparr>ne_Address = ea_IP ea, ne_Port = sint (epp_Port port),
                              ne_ServicePort = Some svcPort\<rparr>,
              si_Service = Some svc, si_Tags = fst (tagsByIP (pods c) (ea_IP ea)),
              si_AvailabilityZone = fst (getPodAZByIP c (ea_IP ea))\<rparr>"
    by (rule Instances_member)
next
  assume h: "parseHostname hostname = Inr (name, namespace) \<and>
    serviceByKey c name namespace = Some item \<and>
    convertService item (domainSuffix c) = Some svc \<and>
    s_Ports svc = [\<lparr>port_Name = ''http'', port_Port = 80\<rparr>,
                   \<lparr>port_Name = ''grpc'', port_Port = 90\<rparr>] \<and>
    ep \<in> set (StoreList (endpoints c)) \<and> ep_Name ep = name \<and> ep_Namespace ep = namespace \<and>
    (\<forall>e \<in> set (StoreList (endpoints c)).
        ep_Name e = name \<and> ep_Namespace e = namespace \<longrightarrow> e = ep) \<and>
    ep_Subsets ep = [\<lparr>ss_Addresses = [ea],
                      ss_Ports = [\<lparr>epp_Name = ''http'', epp_Port = p\<rparr>,
                                  \<lparr>epp_Name = ''grpc'', epp_Port = q\<rparr>]\<rparr>]"
  then have "find (\<lambda>e. ep_Name e = name \<and> ep_Namespace e = namespace)
               (StoreList (endpoints c)) = Some ep"
    by (intro find_unique) simp_all
  with h have "Instances convertService c hostname [''http''] [] =
      endpointsInstances c svc (locatePorts svc [''http'']) [] ep"
    by (simp add: Instances_found)
  also from h have "\<dots> =
      [\<lparr>si_Endpoint = \<lparr>ne_Address = ea_IP ea, ne_Port = sint p,
                        ne_ServicePort = Some \<lparr>port_Name = ''http'', port_Port = 80\<rparr>\<rparr>,
        si_Service = Some svc, si_Tags = fst (tagsByIP (pods c) (ea_IP ea)),
        si_AvailabilityZone = fst (getPodAZByIP c (ea_IP ea))\<rparr>]"
    by (simp add: endpointsInstances_def addressInstances_def HasSubsetOf_empty
        portInstances_def locatePorts_lookup Get_def)
  finally show "Instances convertService c hostname [''http''] [] =
      [\<lparr>si_Endpoint = \<lparr>ne_Address = ea_IP ea, ne_Port = sint p,
                        ne_ServicePort = Some \<lparr>port_Name = ''http'', port_Port = 80\<rparr>\<rparr>,
        si_Service = Some svc, si_Tags = fst (tagsByIP (pods c) (ea_IP ea)),
        si_AvailabilityZone = fst (getPodAZByIP c (ea_IP ea))\<rparr>]" .
qed

theorem Instances_joins_requested_ports_witness:
  "parseHostname ''reviews.foo.cluster.local'' = Inr (''reviews'', ''foo'') \<and>
   serviceByKey sampleController ''reviews'' ''foo'' = Some reviewsService \<and>
   sampleConversion reviewsService (domainSuffix sampleController) =
     Some \<lparr>s_Hostname = ''reviews.foo.cluster.local'',
           s_Ports = [\<lparr>port_Name = ''http'', port_Port = 80\<rparr>,
                      \<lparr>port_Name = ''grpc'', port_Port = 90\<rparr>]\<rparr> \<and>
   reviewsEndpoints \<in> set (StoreList (endpoints sampleController)) \<and>
   ep_Subsets reviewsEndpoints =
     [\<lparr>ss_Addresses = [\<lparr>ea_IP = ''10.1.0.1''\<rparr>],
       ss_Ports = [\<lparr>epp_Name = ''http'', epp_Port = 8080\<rparr>,
                   \<lparr>epp_Name = ''grpc'', epp_Port = 9090\<rparr>]\<rparr>] \<and>
   Instances sampleConversion sampleController ''reviews.foo.cluster.local'' [''http''] [] =
     [\<lparr>si_Endpoint = \<lparr>ne_Address = ''10.1.0.1'', ne_Port = 8080,
                       ne_ServicePort = Some \<lparr>port_Name = ''http'', port_Port = 80\<rparr>\<rparr>,
       si_Service = Some \<lparr>s_Hostname = ''reviews.foo.cluster.local'',
                          s_Ports = [\<lparr>port_Name = ''http'', port_Port = 80\<rparr>,
                                     \<lparr>port_Name = ''grpc'', port_Port = 90\<rparr>]\<rparr>,
       si_Tags = [(''version'', ''v1''), (''env'', ''prod'')],
       si_AvailabilityZone = ''us-east1/b''\<rparr>]"
proof -
  have h1: "parseHostname ''reviews.foo.cluster.local'' = Inr (''reviews'', ''foo'')"
    by code_simp
  have h2: "serviceByKey sampleController ''reviews'' ''foo'' = Some reviewsService"
    by code_simp
  have h3: "sampleConversion reviewsService (domainSuffix sampleController) =
     Some \<lparr>s_Hostname = ''reviews.foo.cluster.local'',
           s_Ports = [\<lparr>port_Name = ''http'', port_Port = 80\<rparr>,
                      \<lparr>port_Name = ''grpc'', port_Port = 90\<rparr>]\<rparr>"
    by code_simp
  have h4: "s_Ports \<lparr>s_Hostname = ''reviews.foo.cluster.local'',
           s_Ports = [\<lparr>port_Name = ''http'', port_Port = 80\<rparr>,
                      \<lparr>port_Name = ''grpc'', port_Port = 90\<rparr>]\<rparr> =
        [\<lparr>port_Name = ''http'', port_Port = 80\<rparr>, \<lparr>port_Name = ''grpc'', port_Port = 90\<rparr>]"
    by simp
  have h5: "reviewsEndpoints \<in> set (StoreList (endpoints sampleController))"
    by code_simp
  have h6: "ep_Name reviewsEndpoints = ''reviews''" and h7: "ep_Namespace reviewsEndpoints = ''foo''"
    by (simp_all add: reviewsEndpoints_def)
  have h8: "\<forall>e \<in> set (StoreList (endpoints sampleController)).
        ep_Name e = ''reviews'' \<and> ep_Namespace e = ''foo'' \<longrightarrow> e = reviewsEndpoints"
    by code_simp
  have h9: "ep_Subsets reviewsEndpoints =
     [\<lparr>ss_Addresses = [\<lparr>ea_IP = ''10.1.0.1''\<rparr>],
       ss_Ports = [\<lparr>epp_Name = ''http'', epp_Port = 8080\<rparr>,
                   \<lparr>epp_Name = ''grpc'', epp_Port = 9090\<rparr>]\<rparr>]"
    by (simp add: reviewsEndpoints_def)
  have tags: "fst (tagsByIP (pods sampleController) (ea_IP \<lparr>ea_IP = ''10.1.0.1''\<rparr>)) =
      [(''version'', ''v1''), (''env'', ''prod'')]"
    by code_simp
  have az: "fst (getPodAZByIP sampleController (ea_IP \<lparr>ea_IP = ''10.1.0.1''\<rparr>)) = ''us-east1/b''"
    by code_simp
  have p: "sint (8080 :: 32 word) = 8080"
    by simp
  note r = Instances_joins_requested_ports
      [where convertService = sampleConversion and c = sampleController
         and hostname = "''reviews.foo.cluster.local''" and name = "''reviews''"
         and namespace = "''foo''" and item = reviewsService and ep = reviewsEndpoints
         and ea = "\<lparr>ea_IP = ''10.1.0.1''\<rparr>" and p = 8080 and q = 9090,
       THEN conjunct2, THEN mp, OF conjI [OF h1 conjI [OF h2 conjI [OF h3 conjI [OF h4
         conjI [OF h5 conjI [OF h6 conjI [OF h7 conjI [OF h8 h9]]]]]]]]]
  have e: "Instances sampleConversion sampleController ''reviews.foo.cluster.local'' [''http''] [] =
     [\<lparr>si_Endpoint = \<lparr>ne_Address = ''10.1.0.1'', ne_Port = 8080,
                       ne_ServicePort = Some \<lparr>port_Name = ''http'', port_Port = 80\<rparr>\<rparr>,
       si_Service = Some \<lparr>s_Hostname = ''reviews.foo.cluster.local'',
                          s_Ports = [\<lparr>port_Name = ''http'', port_Port = 80\<rparr>,
                                     \<lparr>port_Name = ''grpc'', port_Port = 90\<rparr>]\<rparr>,
       si_Tags = [(''version'', ''v1''), (''env'', ''prod'')],
       si_AvailabilityZone = ''us-east1/b''\<rparr>]"
    unfolding r tags az p by simp
  show ?thesis by (intro conjI h1 h2 h3 h5 h9 e)
qed

text \<open>
  C4. A filter matches a tag set when it is empty or one of its tag sets is a subset of
  it: \<^verbatim>\<open>{version: v1}\<close> matches \<^verbatim>\<open>{version: v1, env: prod}\<close>, \<^verbatim>\<open>{version: v2}\<close> does
  not, and the empty filter matches every tag set. An address whose tags the filter
  matches contributes what it contributes to the unfiltered query, and any other address
  contributes nothing. So an address contributes an instance exactly when the filter
  matches its tags and its subset has a port among the requested ports of the service;
  an address with no pod (and so no tags) contributes under the empty filter; and the
  filtered query returns the instances of the unfiltered query whose tags the filter
  matches.
\<close>

theorem tag_filter_is_subset_match:
  "HasSubsetOf [[(''version'', ''v1'')]] [(''version'', ''v1''), (''env'', ''prod'')] \<and>
   \<not> HasSubsetOf [[(''version'', ''v2'')]] [(''version'', ''v1''), (''env'', ''prod'')] \<and>
   HasSubsetOf [] tags \<and>
   HasSubsetOf tagsList tags =
     (tagsList = [] \<or> (\<exists>t \<in> set tagsList. \<forall>(k, v) \<in> set t. map_of tags k = Some v)) \<and>
   addressInstances c svc svcPorts tagsList ss ea =
     (if HasSubsetOf tagsList (fst (tagsByIP (pods c) (ea_IP ea)))
      then addressInstances c svc svcPorts [] ss ea else []) \<and>
   (addressInstances c svc svcPorts tagsList ss ea \<noteq> []) =
     (HasSubsetOf tagsList (fst (tagsByIP (pods c) (ea_IP ea))) \<and>
      (\<exists>port \<in> set (ss_Ports ss). svcPorts (epp_Name port) \<noteq> None)) \<and>
   (getPodByIP (pods c) (ea_IP ea) = None \<longrightarrow>
      addressInstances c svc svcPorts [] ss ea =
        portInstances svc svcPorts ea [] [] (ss_Ports ss)) \<and>
   Instances convertService c hostname ports tagsList =
     filter (\<lambda>si. HasSubsetOf tagsList (si_Tags si))
       (Instances convertService c hostname ports [])"
proof -
  have 1: "HasSubsetOf [[(''version'', ''v1'')]] [(''version'', ''v1''), (''env'', ''prod'')]"
    by (simp add: HasSubsetOf_def SubsetOf_def)
  have 2: "\<not> HasSubsetOf [[(''version'', ''v2'')]] [(''version'', ''v1''), (''env'', ''prod'')]"
    by (simp add: HasSubsetOf_def SubsetOf_def)
  have 4: "HasSubsetOf tagsList tags =
     (tagsList = [] \<or> (\<exists>t \<in> set tagsList. \<forall>(k, v) \<in> set t. map_of tags k = Some v))"
    by (simp add: HasSubsetOf_iff SubsetOf_iff)
  have 5: "addressInstances c svc svcPorts tagsList ss ea =
     (if HasSubsetOf tagsList (fst (tagsByIP (pods c) (ea_IP ea)))
      then addressInstances c svc svcPorts [] ss ea else [])"
    by (simp add: addressInstances_def Let_def HasSubsetOf_empty)
  have 6: "(addressInstances c svc svcPorts tagsList ss ea \<noteq> []) =
     (HasSubsetOf tagsList (fst (tagsByIP (pods c) (ea_IP ea))) \<and>
      (\<exists>port \<in> set (ss_Ports ss). svcPorts (epp_Name port) \<noteq> None))"
    by (rule addressInstances_nonempty)
  have 7: "getPodByIP (pods c) (ea_IP ea) = None \<longrightarrow>
      addressInstances c svc svcPorts [] ss ea =
        portInstances svc svcPorts ea [] [] (ss_Ports ss)"
    by (simp add: addressInstances_def Let_def HasSubsetOf_empty tagsByIP_def getPodAZByIP_def)
  show ?thesis
    by (intro conjI 1 2 HasSubsetOf_empty 4 5 6 7 Instances_filter)
qed

theorem tag_filter_is_subset_match_witness:
  "(\<exists>port \<in> set (ss_Ports ratingsSubset).
      [''http'' \<mapsto> \<lparr>port_Name = ''http'', port_Port = 80\<rparr>] (epp_Name port) \<noteq> None) \<and>
   fst (tagsByIP (pods sampleController) ''10.1.0.2'') = [(''version'', ''v2'')] \<and>
   \<not> HasSubsetOf [[(''version'', ''v1'')]] (fst (tagsByIP (pods sampleController) ''10.1.0.2'')) \<and>
   addressInstances sampleController
     \<lparr>s_Hostname = ''ratings.foo.cluster.local'',
      s_Ports = [\<lparr>port_Name = ''http'', port_Port = 80\<rparr>]\<rparr>
     [''http'' \<mapsto> \<lparr>port_Name = ''http'', port_Port = 80\<rparr>]
     [[(''version'', ''v1'')]] ratingsSubset \<lparr>ea_IP = ''10.1.0.2''\<rparr> = [] \<and>
   getPodByIP (pods sampleController) ''10.1.0.3'' = None \<and>
   addressInstances sampleController
     \<lparr>s_Hostname = ''ratings.foo.cluster.local'',
      s_Ports = [\<lparr>port_Name = ''http'', port_Port = 80\<rparr>]\<rparr>
     [''http'' \<mapsto> \<lparr>port_Name = ''http'', port_Port = 80\<rparr>]
     [] ratingsSubset \<lparr>ea_IP = ''10.1.0.3''\<rparr> =
     [\<lparr>si_Endpoint = \<lparr>ne_Address = ''10.1.0.3'', ne_Port = 8080,
                       ne_ServicePort = Some \<lparr>port_Name = ''http'', port_Port = 80\<rparr>\<rparr>,
       si_Service = Some \<lparr>s_Hostname = ''ratings.foo.cluster.local'',
                          s_Ports = [\<lparr>port_Name = ''http'', port_Port = 80\<rparr>]\<rparr>,
       si_Tags = [], si_AvailabilityZone = []\<rparr>] \<and>
   map (\<lambda>si. ne_Address (si_Endpoint si))
     (Instances sampleConversion sampleController ''ratings.foo.cluster.local'' [''http''] []) =
     [''10.1.0.1'', ''10.1.0.2'', ''10.1.0.3'', ''10.1.0.4''] \<and>
   map (\<lambda>si. ne_Address (si_Endpoint si))
     (Instances sampleConversion sampleController ''ratings.foo.cluster.local'' [''http'']
        [[(''version'', ''v1'')]]) = [''10.1.0.1'', ''10.1.0.4''] \<and>
   map (\<lambda>si. ne_Address (si_Endpoint si))
     (Instances sampleConversion sampleController ''ratings.foo.cluster.local'' [''http'']
        [[(''version'', ''v2'')]]) = [''10.1.0.2'']"
proof -
  let ?svc = "\<lparr>s_Hostname = ''ratings.foo.cluster.local'',
      s_Ports = [\<lparr>port_Name = ''http'', port_Port = 80\<rparr>]\<rparr>"
  let ?svcPorts = "[''http'' \<mapsto> \<lparr>port_Name = ''http'', port_Port = 80\<rparr>]"
  have h1: "\<exists>port \<in> set (ss_Ports ratingsSubset). ?svcPorts (epp_Name port) \<noteq> None"
    by (simp add: ratingsSubset_def)
  have t: "fst (tagsByIP (pods sampleController) ''10.1.0.2'') = [(''version'', ''v2'')]"
    by code_simp
  have n: "\<not> HasSubsetOf [[(''version'', ''v1'')]]
              (fst (tagsByIP (pods sampleController) ''10.1.0.2''))"
    unfolding t by (simp add: HasSubsetOf_def SubsetOf_def)
  have r1: "(addressInstances sampleController ?svc ?svcPorts [[(''version'', ''v1'')]]
               ratingsSubset \<lparr>ea_IP = ''10.1.0.2''\<rparr> \<noteq> []) =
            (HasSubsetOf [[(''version'', ''v1'')]]
               (fst (tagsByIP (pods sampleController) (ea_IP \<lparr>ea_IP = ''10.1.0.2''\<rparr>))) \<and>
             (\<exists>port \<in> set (ss_Ports ratingsSubset). ?svcPorts (epp_Name port) \<noteq> None))"
    by (rule tag_filter_is_subset_match
          [where c = sampleController and ss = ratingsSubset and svcPorts = ?svcPorts,
           THEN conjunct2, THEN conjunct2, THEN conjunct2, THEN conjunct2, THEN conjunct2,
           THEN conjunct1])
  from r1 n have e1: "addressInstances sampleController ?svc ?svcPorts [[(''version'', ''v1'')]]
               ratingsSubset \<lparr>ea_IP = ''10.1.0.2''\<rparr> = []"
    by simp
  have h2: "getPodByIP (pods sampleController) ''10.1.0.3'' = None"
    by code_simp
  then have h2': "getPodByIP (pods sampleController) (ea_IP \<lparr>ea_IP = ''10.1.0.3''\<rparr>) = None"
    by simp
  have r2: "addressInstances sampleController ?svc ?svcPorts [] ratingsSubset
              \<lparr>ea_IP = ''10.1.0.3''\<rparr> =
            portInstances ?svc ?svcPorts \<lparr>ea_IP = ''10.1.0.3''\<rparr> [] [] (ss_Ports ratingsSubset)"
    by (rule tag_filter_is_subset_match
          [where c = sampleController and ss = ratingsSubset and svcPorts = ?svcPorts,
           THEN conjunct2, THEN conjunct2, THEN conjunct2, THEN conjunct2, THEN conjunct2,
           THEN conjunct2, THEN conjunct1, THEN mp, OF h2'])
  have e2: "addressInstances sampleController ?svc ?svcPorts [] ratingsSubset
              \<lparr>ea_IP = ''10.1.0.3''\<rparr> =
     [\<lparr>si_Endpoint = \<lparr>ne_Address = ''10.1.0.3'', ne_Port = 8080,
                       ne_ServicePort = Some \<lparr>port_Name = ''http'', port_Port = 80\<rparr>\<rparr>,
       si_Service = Some ?svc, si_Tags = [], si_AvailabilityZone = []\<rparr>]"
    unfolding r2 by (simp add: portInstances_def ratingsSubset_def)
  have q0: "map (\<lambda>si. ne_Address (si_Endpoint si))
     (Instances sampleConversion sampleController ''ratings.foo.cluster.local'' [''http''] []) =
     [''10.1.0.1'', ''10.1.0.2'', ''10.1.0.3'', ''10.1.0.4'']"
    by code_simp
  have q1: "map (\<lambda>si. ne_Address (si_Endpoint si))
     (Instances sampleConversion sampleController ''ratings.foo.cluster.local'' [''http'']
        [[(''version'', ''v1'')]]) = [''10.1.0.1'', ''10.1.0.4'']"
    by code_simp
  have q2: "map (\<lambda>si. ne_Address (si_Endpoint si))
     (Instances sampleConversion sampleController ''ratings.foo.cluster.local'' [''http'']
        [[(''version'', ''v2'')]]) = [''10.1.0.2'']"
    by code_simp
  show ?thesis by (intro conjI h1 t n e1 h2 e2 q0 q1 q2)
qed

text \<open>
  An address whose tags the filter \<^verbatim>\<open>{version: v1}\<close> matches, in a query for the port
  \<^verbatim>\<open>grpc\<close>, which its subset does not expose: it contributes nothing, and the query
  returns nothing, while the query for \<^verbatim>\<open>http\<close> under the same filter returns two
  instances.
\<close>

theorem matching_filter_without_requested_port:
  "fst (tagsByIP (pods sampleController) ''10.1.0.1'') = [(''version'', ''v1''), (''env'', ''prod'')] \<and>
   HasSubsetOf [[(''version'', ''v1'')]] [(''version'', ''v1''), (''env'', ''prod'')] \<and>
   addressInstances sampleController
     \<lparr>s_Hostname = ''ratings.foo.cluster.local'',
      s_Ports = [\<lparr>port_Name = ''http'', port_Port = 80\<rparr>]\<rparr>
     (locatePorts \<lparr>s_Hostname = ''ratings.foo.cluster.local'',
                   s_Ports = [\<lparr>port_Name = ''http'', port_Port = 80\<rparr>]\<rparr> [''grpc''])
     [[(''version'', ''v1'')]] ratingsSubset \<lparr>ea_IP = ''10.1.0.1''\<rparr> = [] \<and>
   Instances sampleConversion sampleController ''ratings.foo.cluster.local'' [''grpc'']
     [[(''version'', ''v1'')]] = [] \<and>
   length (Instances sampleConversion sampleController ''ratings.foo.cluster.local'' [''http'']
     [[(''version'', ''v1'')]]) = 2"
proof -
  have a: "fst (tagsByIP (pods sampleController) ''10.1.0.1'') =
             [(''version'', ''v1''), (''env'', ''prod'')]"
    by code_simp
  have b: "HasSubsetOf [[(''version'', ''v1'')]] [(''version'', ''v1''), (''env'', ''prod'')]"
    by (simp add: HasSubsetOf_def SubsetOf_def)
  have c: "addressInstances sampleController
     \<lparr>s_Hostname = ''ratings.foo.cluster.local'',
      s_Ports = [\<lparr>port_Name = ''http'', port_Port = 80\<rparr>]\<rparr>
     (locatePorts \<lparr>s_Hostname = ''ratings.foo.cluster.local'',
                   s_Ports = [\<lparr>port_Name = ''http'', port_Port = 80\<rparr>]\<rparr> [''grpc''])
     [[(''version'', ''v1'')]] ratingsSubset \<lparr>ea_IP = ''10.1.0.1''\<rparr> = []"
    by code_simp
  have d: "Instances sampleConversion sampleController ''ratings.foo.cluster.local'' [''grpc'']
     [[(''version'', ''v1'')]] = []"
    by code_simp
  have e: "length (Instances sampleConversion sampleController ''ratings.foo.cluster.local''
     [''http''] [[(''version'', ''v1'')]]) = 2"
    by code_simp
  show ?thesis by (intro conjI a b c d e)
qed

text \<open>
  C6. The locality lookup of an address fails, with the empty zone, when the address has
  no pod, the pod's node is not in the Node mirror, or the node lacks the region or the
  zone label; otherwise it is \<^verbatim>\<open>region/zone\<close>. An address that passes the tag filter
  contributes one instance for each of its subset's ports found in the requested service
  ports, whatever the lookup gives, and each instance carries what the lookup gives for its
  address. Replacing the Node mirror changes nothing in a query's result but the
  availability zones.
\<close>

theorem locality_failure_keeps_instance:
  "(getPodByIP (pods c) addr = None \<longrightarrow> getPodAZByIP c addr = ([], False)) \<and>
   (getPodByIP (pods c) addr = Some pod \<and> GetByKey (nodes c) (pod_NodeName pod) = None \<longrightarrow>
      getPodAZByIP c addr = ([], False)) \<and>
   (getPodByIP (pods c) addr = Some pod \<and> GetByKey (nodes c) (pod_NodeName pod) = Some node \<and>
    (map_of (node_Labels node) NodeRegionLabel = None \<or>
     map_of (node_Labels node) NodeZoneLabel = None) \<longrightarrow>
      getPodAZByIP c addr = ([], False)) \<and>
   (getPodByIP (pods c) addr = Some pod \<and> GetByKey (nodes c) (pod_NodeName pod) = Some node \<and>
    map_of (node_Labels node) NodeRegionLabel = Some region \<and>
    map_of (node_Labels node) NodeZoneLabel = Some zone \<longrightarrow>
      getPodAZByIP c addr = (region @ ''/'' @ zone, True)) \<and>
   (HasSubsetOf tagsList (fst (tagsByIP (pods c) (ea_IP ea))) \<longrightarrow>
      length (addressInstances c svc svcPorts tagsList ss ea) =
        length (filter (\<lambda>port. svcPorts (epp_Name port) \<noteq> None) (ss_Ports ss))) \<and>
   (\<forall>si \<in> set (addressInstances c svc svcPorts tagsList ss ea).
      si_AvailabilityZone si = fst (getPodAZByIP c (ea_IP ea))) \<and>
   (\<forall>si \<in> set (Instances convertService c hostname ports tagsList).
      si_AvailabilityZone si = fst (getPodAZByIP c (ne_Address (si_Endpoint si)))) \<and>
   map (\<lambda>si. si\<lparr>si_AvailabilityZone := []\<rparr>)
     (Instances convertService (c\<lparr>nodes := n\<rparr>) hostname ports tagsList) =
   map (\<lambda>si. si\<lparr>si_AvailabilityZone := []\<rparr>)
     (Instances convertService c hostname ports tagsList)"
proof -
  have 5: "HasSubsetOf tagsList (fst (tagsByIP (pods c) (ea_IP ea))) \<longrightarrow>
      length (addressInstances c svc svcPorts tagsList ss ea) =
        length (filter (\<lambda>port. svcPorts (epp_Name port) \<noteq> None) (ss_Ports ss))"
    by (simp add: addressInstances_def Let_def length_portInstances)
  have 6: "\<forall>si \<in> set (addressInstances c svc svcPorts tagsList ss ea).
      si_AvailabilityZone si = fst (getPodAZByIP c (ea_IP ea))"
    by (auto simp: set_addressInstances)
  have 7: "\<forall>si \<in> set (Instances convertService c hostname ports tagsList).
      si_AvailabilityZone si = fst (getPodAZByIP c (ne_Address (si_Endpoint si)))"
    by (simp add: Instances_AvailabilityZone)
  from getPodAZByIP_cases [of c addr pod node region zone] 5 6 7
    erase_Instances_nodes [where conv = convertService and c = c and n = n
      and hostname = hostname and ports = ports and tagsList = tagsList]
  show ?thesis by (elim conjE) (intro conjI; assumption)
qed

theorem locality_failure_keeps_instance_witness:
  "getPodByIP (pods sampleController) ''10.1.0.3'' = None \<and>
   getPodAZByIP sampleController ''10.1.0.3'' = ([], False) \<and>
   getPodByIP (pods sampleController) ''10.1.0.4'' = Some podC \<and>
   GetByKey (nodes sampleController) (pod_NodeName podC) = None \<and>
   getPodAZByIP sampleController ''10.1.0.4'' = ([], False) \<and>
   getPodByIP (pods sampleController) ''10.1.0.2'' = Some podB \<and>
   GetByKey (nodes sampleController) (pod_NodeName podB) = Some node2 \<and>
   map_of (node_Labels node2) NodeZoneLabel = None \<and>
   getPodAZByIP sampleController ''10.1.0.2'' = ([], False) \<and>
   getPodByIP (pods sampleController) ''10.1.0.1'' = Some podA \<and>
   GetByKey (nodes sampleController) (pod_NodeName podA) = Some node1 \<and>
   map_of (node_Labels node1) NodeRegionLabel = Some ''us-east1'' \<and>
   map_of (node_Labels node1) NodeZoneLabel = Some ''b'' \<and>
   getPodAZByIP sampleController ''10.1.0.1'' = (''us-east1/b'', True) \<and>
   map (\<lambda>si. (ne_Address (si_Endpoint si), si_AvailabilityZone si))
     (Instances sampleConversion sampleController ''ratings.foo.cluster.local'' [''http''] []) =
     [(''10.1.0.1'', ''us-east1/b''), (''10.1.0.2'', []), (''10.1.0.3'', []),
      (''10.1.0.4'', [])]"
proof -
  note T = locality_failure_keeps_instance [where c = sampleController]
  have a1: "getPodByIP (pods sampleController) ''10.1.0.3'' = None"
    by code_simp
  have r1: "getPodAZByIP sampleController ''10.1.0.3'' = ([], False)"
    by (rule T [THEN conjunct1, THEN mp, OF a1])
  have b1: "getPodByIP (pods sampleController) ''10.1.0.4'' = Some podC"
    by code_simp
  have b2: "GetByKey (nodes sampleController) (pod_NodeName podC) = None"
    by code_simp
  have r2: "getPodAZByIP sampleController ''10.1.0.4'' = ([], False)"
    by (rule T [THEN conjunct2, THEN conjunct1, THEN mp, OF conjI [OF b1 b2]])
  have c1: "getPodByIP (pods sampleController) ''10.1.0.2'' = Some podB"
    by code_simp
  have c2: "GetByKey (nodes sampleController) (pod_NodeName podB) = Some node2"
    by code_simp
  have c3: "map_of (node_Labels node2) NodeZoneLabel = None"
    by code_simp
  have r3: "getPodAZByIP sampleController ''10.1.0.2'' = ([], False)"
    by (rule T [THEN conjunct2, THEN conjunct2, THEN conjunct1, THEN mp,
                OF conjI [OF c1 conjI [OF c2 disjI2 [OF c3]]]])
  have d1: "getPodByIP (pods sampleController) ''10.1.0.1'' = Some podA"
    by code_simp
  have d2: "GetByKey (nodes sampleController) (pod_NodeName podA) = Some node1"
    by code_simp
  have d3: "map_of (node_Labels node1) NodeRegionLabel = Some ''us-east1''"
    by code_simp
  have d4: "map_of (node_Labels node1) NodeZoneLabel = Some ''b''"
    by code_simp
  have "getPodAZByIP sampleController ''10.1.0.1'' = (''us-east1'' @ ''/'' @ ''b'', True)"
    by (rule T [THEN conjunct2, THEN conjunct2, THEN conjunct2, THEN conjunct1, THEN mp,
                OF conjI [OF d1 conjI [OF d2 conjI [OF d3 d4]]]])
  then have r4: "getPodAZByIP sampleController ''10.1.0.1'' = (''us-east1/b'', True)"
    by simp
  have q: "map (\<lambda>si. (ne_Address (si_Endpoint si), si_AvailabilityZone si))
     (Instances sampleConversion sampleController ''ratings.foo.cluster.local'' [''http''] []) =
     [(''10.1.0.1'', ''us-east1/b''), (''10.1.0.2'', []), (''10.1.0.3'', []),
      (''10.1.0.4'', [])]"
    by code_simp
  show ?thesis by (intro conjI a1 r1 b1 b2 r2 c1 c2 c3 r3 d1 d2 d3 d4 r4 q)
qed

section \<open>Hostnames: results\<close>

lemma cutAtDot_append:
  assumes "CHR ''.'' \<notin> set a"
  shows "cutAtDot (a @ ''.'' @ b) = Some (a, b)"
proof -
  from assms have "\<And>x. x \<in> set a \<Longrightarrow> x \<noteq> CHR ''.''"
    by auto
  then show ?thesis
    by (simp add: cutAtDot_def takeWhile_append2 dropWhile_append2)
qed

lemma cutAtDot_Some:
  assumes "cutAtDot h = Some (a, b)"
  shows "h = a @ ''.'' @ b \<and> CHR ''.'' \<notin> set a"
proof -
  let ?P = "\<lambda>c. c \<noteq> CHR ''.''"
  from assms have dot: "CHR ''.'' \<in> set h" and a: "a = takeWhile ?P h"
    and b: "b = tl (dropWhile ?P h)"
    by (auto simp: cutAtDot_def split: if_splits)
  from dot have ne: "dropWhile ?P h \<noteq> []"
    by (simp add: dropWhile_eq_Nil_conv) 
  then have "\<not> ?P (hd (dropWhile ?P h))"
    by (rule hd_dropWhile)
  with ne have "dropWhile ?P h = CHR ''.'' # b"
    unfolding b by (cases "dropWhile ?P h") auto
  then have "h = a @ ''.'' @ b"
    unfolding a using takeWhile_dropWhile_id [of ?P h] by simp
  moreover have "CHR ''.'' \<notin> set a"
    unfolding a by (auto dest: set_takeWhileD)
  ultimately show ?thesis by simp
qed

lemma parseHostname_serviceHostname:
  assumes "CHR ''.'' \<notin> set name" and "CHR ''.'' \<notin> set namespace"
  shows "parseHostname (serviceHostname name namespace suffix) = Inr (name, namespace)"
proof -
  have "cutAtDot (name @ ''.'' @ (namespace @ ''.'' @ suffix)) =
        Some (name, namespace @ ''.'' @ suffix)"
    using assms(1) by (rule cutAtDot_append)
  moreover have "cutAtDot (namespace @ ''.'' @ suffix) = Some (namespace, suffix)"
    using assms(2) by (rule cutAtDot_append)
  ultimately show ?thesis
    by (simp add: parseHostname_def serviceHostname_def)
qed

lemma parseHostname_Inr:
  assumes "parseHostname hostname = Inr (n, m)"
  shows "CHR ''.'' \<notin> set n \<and> CHR ''.'' \<notin> set m \<and>
         (\<exists>suffix. hostname = serviceHostname n m suffix)"
proof -
  from assms obtain rest suffix where
    1: "cutAtDot hostname = Some (n, rest)" and 2: "cutAtDot rest = Some (m, suffix)"
    by (auto simp: parseHostname_def split: option.splits prod.splits)
  from cutAtDot_Some [OF 1] cutAtDot_Some [OF 2]
  have "hostname = serviceHostname n m suffix" and "CHR ''.'' \<notin> set n" and "CHR ''.'' \<notin> set m"
    by (simp_all add: serviceHostname_def)
  then show ?thesis by blast
qed

text \<open>
  C8. For a name and a namespace without a dot, and any suffix, parsing
  \<^verbatim>\<open><name>.<namespace>.<suffix>\<close> gives back the name and the namespace. A hostname the
  parser accepts is the parsed name, the parsed namespace and the rest of the hostname,
  joined by dots, and the parsed parts have no dot. So two hostnames built from dot-free
  names and namespaces are equal only for the same name and namespace, and
  \<^verbatim>\<open>GetService\<close> on such a hostname reads the Service mirror entry of that name and
  namespace.
\<close>

theorem hostname_round_trip:
  "(CHR ''.'' \<notin> set name \<and> CHR ''.'' \<notin> set namespace \<longrightarrow>
      parseHostname (serviceHostname name namespace suffix) = Inr (name, namespace)) \<and>
   (parseHostname hostname = Inr (n, m) \<longrightarrow>
      CHR ''.'' \<notin> set n \<and> CHR ''.'' \<notin> set m \<and>
      (\<exists>rest. hostname = serviceHostname n m rest)) \<and>
   (CHR ''.'' \<notin> set name \<and> CHR ''.'' \<notin> set namespace \<and>
    CHR ''.'' \<notin> set name' \<and> CHR ''.'' \<notin> set namespace' \<and>
    serviceHostname name namespace suffix = serviceHostname name' namespace' suffix' \<longrightarrow>
      name = name' \<and> namespace = namespace') \<and>
   (CHR ''.'' \<notin> set name \<and> CHR ''.'' \<notin> set namespace \<longrightarrow>
      GetService convertService c (serviceHostname name namespace suffix) =
        (case serviceByKey c name namespace of
           None \<Rightarrow> (None, False)
         | Some item \<Rightarrow> (convertService item (domainSuffix c),
                        convertService item (domainSuffix c) \<noteq> None)))"
proof (intro conjI impI)
  assume "CHR ''.'' \<notin> set name \<and> CHR ''.'' \<notin> set namespace"
  then show "parseHostname (serviceHostname name namespace suffix) = Inr (name, namespace)"
    by (simp add: parseHostname_serviceHostname)
next
  assume "parseHostname hostname = Inr (n, m)"
  then have "CHR ''.'' \<notin> set n \<and> CHR ''.'' \<notin> set m \<and>
         (\<exists>suffix. hostname = serviceHostname n m suffix)"
    by (rule parseHostname_Inr)
  then show "CHR ''.'' \<notin> set n" and "CHR ''.'' \<notin> set m"
    and "\<exists>rest. hostname = serviceHostname n m rest"
    by simp_all
next
  assume h: "CHR ''.'' \<notin> set name \<and> CHR ''.'' \<notin> set namespace \<and>
    CHR ''.'' \<notin> set name' \<and> CHR ''.'' \<notin> set namespace' \<and>
    serviceHostname name namespace suffix = serviceHostname name' namespace' suffix'"
  then have d: "CHR ''.'' \<notin> set name" "CHR ''.'' \<notin> set namespace"
      "CHR ''.'' \<notin> set name'" "CHR ''.'' \<notin> set namespace'"
    by simp_all
  have "parseHostname (serviceHostname name namespace suffix) = Inr (name, namespace)"
    and "parseHostname (serviceHostname name' namespace' suffix') = Inr (name', namespace')"
    by (rule parseHostname_serviceHostname [OF d(1,2)])
       (rule parseHostname_serviceHostname [OF d(3,4)])
  with h have "Inr (name, namespace) = (Inr (name', namespace') :: string + string \<times> string)"
    by simp
  then show "name = name'" and "namespace = namespace'" by simp_all
next
  assume "CHR ''.'' \<notin> set name \<and> CHR ''.'' \<notin> set namespace"
  then have "parseHostname (serviceHostname name namespace suffix) = Inr (name, namespace)"
    by (simp add: parseHostname_serviceHostname)
  then show "GetService convertService c (serviceHostname name namespace suffix) =
        (case serviceByKey c name namespace of
           None \<Rightarrow> (None, False)
         | Some item \<Rightarrow> (convertService item (domainSuffix c),
                        convertService item (domainSuffix c) \<noteq> None))"
    by (simp add: GetService_def Let_def split: option.split)
qed

theorem hostname_round_trip_witness:
  "CHR ''.'' \<notin> set ''reviews'' \<and> CHR ''.'' \<notin> set ''foo'' \<and>
   serviceHostname ''reviews'' ''foo'' ''cluster.local'' = ''reviews.foo.cluster.local'' \<and>
   parseHostname ''reviews.foo.cluster.local'' = Inr (''reviews'', ''foo'') \<and>
   GetService sampleConversion sampleController ''reviews.foo.cluster.local'' =
     (Some \<lparr>s_Hostname = ''reviews.foo.cluster.local'',
            s_Ports = [\<lparr>port_Name = ''http'', port_Port = 80\<rparr>,
                       \<lparr>port_Name = ''grpc'', port_Port = 90\<rparr>]\<rparr>, True)"
proof -
  have d1: "CHR ''.'' \<notin> set ''reviews''" and d2: "CHR ''.'' \<notin> set ''foo''"
    by simp_all
  have s: "serviceHostname ''reviews'' ''foo'' ''cluster.local'' = ''reviews.foo.cluster.local''"
    by (simp add: serviceHostname_def)
  have "parseHostname (serviceHostname ''reviews'' ''foo'' ''cluster.local'') =
          Inr (''reviews'', ''foo'')"
    by (rule hostname_round_trip [THEN conjunct1, THEN mp, OF conjI [OF d1 d2]])
  then have p: "parseHostname ''reviews.foo.cluster.local'' = Inr (''reviews'', ''foo'')"
    unfolding s .
  have g: "GetService sampleConversion sampleController ''reviews.foo.cluster.local'' =
     (Some \<lparr>s_Hostname = ''reviews.foo.cluster.local'',
            s_Ports = [\<lparr>port_Name = ''http'', port_Port = 80\<rparr>,
                       \<lparr>port_Name = ''grpc'', port_Port = 90\<rparr>]\<rparr>, True)"
    by code_simp
  show ?thesis by (intro conjI d1 d2 s p g)
qed

text \<open>
  A name with a dot: the hostname parses to another name and namespace, and it is also
  the hostname of that other pair under a longer suffix.
\<close>

theorem hostname_of_dotted_name_parses_to_other_name:
  "parseHostname (serviceHostname ''a.b'' ''c'' ''cluster.local'') = Inr (''a'', ''b'') \<and>
   serviceHostname ''a.b'' ''c'' ''cluster.local'' = serviceHostname ''a'' ''b'' ''c.cluster.local''"
  by (simp add: parseHostname_def serviceHostname_def cutAtDot_def)

end
